theory Spec2Isabelle
  imports Complex_Main "HOL-Library.Log_Nat"
begin

section \<open>Numbers, dates and identifiers\<close>

text \<open>
  The engine is TypeScript. Counters (rounds, streaks, attempts) are natural numbers and
  scores are integers; they stay far below 2^53, where the arithmetic of the language
  is exact. Every other \<^verbatim>\<open>number\<close> (response times, rates, weights,
  multipliers) is an IEEE-754 binary64 value, held here as the rational it denotes.
  An arithmetic operation of the source on such numbers is the exact operation followed
  by the rounding to the nearest binary64 value, a tie going to the even significand
  (\<open>binary64\<close>), and a decimal literal such as \<^verbatim>\<open>0.1\<close> is the binary64 value
  nearest to it. So \<^verbatim>\<open>170 * (1 + 4 * 0.1)\<close> is \<open>237.99999999999997\<close> here, as
  it is in the code. The infinities and NaN are not represented: the results of the
  engine stay below 2^1024 in magnitude, and it divides by constants and by counters
  that it has incremented or tested.
  \<^verbatim>\<open>new Date()\<close> and \<^verbatim>\<open>uuidv4()\<close> are inputs of the operation that
  calls them: a time stamp in milliseconds and a fresh identifier. An operation that
  reads the clock more than once is given one value for all its readings.
\<close>

definition pow2 :: "int \<Rightarrow> rat" where
  "pow2 n = (if 0 \<le> n then 2 ^ nat n else 1 / 2 ^ nat (- n))"

definition exponent_of :: "rat \<Rightarrow> int" where
  \<comment> \<open>the binary exponent \<open>e\<close> of a number \<open>x \<noteq> 0\<close>:
      \<open>pow2 e \<le> \<bar>x\<bar> < pow2 (e + 1)\<close>
      (\<open>bitlen n\<close> is the number of binary digits of \<open>n\<close>)\<close>
  "exponent_of x =
     (if 1 \<le> \<bar>x\<bar> then bitlen \<lfloor>\<bar>x\<bar>\<rfloor> - 1
      else if x = 0 then - 1075
      else - bitlen (\<lceil>1 / \<bar>x\<bar>\<rceil> - 1))"

definition round_half_even :: "rat \<Rightarrow> int" where
  \<comment> \<open>the nearest integer, a tie going to the even one\<close>
  "round_half_even y =
     (let f = \<lfloor>y\<rfloor>; r = y - of_int f in
      if r < 1 / 2 then f
      else if 1 / 2 < r then f + 1
      else if even f then f else f + 1)"

definition binary64 :: "rat \<Rightarrow> rat" where
  \<comment> \<open>the binary64 value nearest to \<open>x\<close>: a significand of 53 binary digits, so a
      multiple of \<open>pow2 (e - 52)\<close> for the exponent \<open>e\<close> of \<open>x\<close>; below
      \<open>pow2 (- 1022)\<close> (subnormal numbers) a multiple of \<open>pow2 (- 1074)\<close>\<close>
  "binary64 x =
     (let quantum = pow2 (max (exponent_of x) (- 1022) - 52)
      in of_int (round_half_even (x / quantum)) * quantum)"

definition add64 :: "rat \<Rightarrow> rat \<Rightarrow> rat" where
  \<comment> \<open>\<^verbatim>\<open>a + b\<close>\<close>
  "add64 a b = binary64 (a + b)"

definition sub64 :: "rat \<Rightarrow> rat \<Rightarrow> rat" where
  \<comment> \<open>\<^verbatim>\<open>a - b\<close>\<close>
  "sub64 a b = binary64 (a - b)"

definition mul64 :: "rat \<Rightarrow> rat \<Rightarrow> rat" where
  \<comment> \<open>\<^verbatim>\<open>a * b\<close>\<close>
  "mul64 a b = binary64 (a * b)"

definition div64 :: "rat \<Rightarrow> rat \<Rightarrow> rat" where
  \<comment> \<open>\<^verbatim>\<open>a / b\<close>, for \<open>b \<noteq> 0\<close>\<close>
  "div64 a b = binary64 (a / b)"

definition Math_floor :: "rat \<Rightarrow> int" where
  "Math_floor x = \<lfloor>x\<rfloor>"

definition Math_round :: "rat \<Rightarrow> int" where
  \<comment> \<open>\<^verbatim>\<open>Math.round\<close>: the nearest integer, a tie going up.\<close>
  "Math_round x = \<lfloor>x + 1 / 2\<rfloor>"

section \<open>JavaScript containers\<close>

text \<open>
  A JavaScript \<^verbatim>\<open>Map\<close> keeps its entries in insertion order; \<^verbatim>\<open>set\<close> on a
  key that is present replaces the value where it stands, on a new key it appends.
  It is modelled as an association list.
\<close>

fun Map_set :: "'k \<Rightarrow> 'v \<Rightarrow> ('k \<times> 'v) list \<Rightarrow> ('k \<times> 'v) list" where
  "Map_set k v [] = [(k, v)]"
| "Map_set k v (e # m) = (if fst e = k then (k, v) # m else e # Map_set k v m)"

definition Map_get :: "('k \<times> 'v) list \<Rightarrow> 'k \<Rightarrow> 'v option" where
  "Map_get m k = map_of m k"

definition Map_values :: "('k \<times> 'v) list \<Rightarrow> 'v list" where
  \<comment> \<open>\<^verbatim>\<open>Array.from(m.values())\<close>\<close>
  "Map_values m = map snd m"

definition Object_values :: "('k \<times> 'v) list \<Rightarrow> 'v list" where
  \<comment> \<open>\<^verbatim>\<open>Object.values(m)\<close> on a \<^verbatim>\<open>Map\<close>. \<^verbatim>\<open>Object.values\<close> lists the
      own enumerable string-keyed properties of its argument; a \<^verbatim>\<open>Map\<close> holds its
      entries in an internal slot and has no such property, so the array is empty
      whatever the \<^verbatim>\<open>Map\<close> contains.\<close>
  "Object_values m = []"

text \<open>
  \<^verbatim>\<open>Array.prototype.sort\<close> with a comparator is stable: \<open>a\<close> stays before \<open>b\<close>
  unless the comparator returns a positive number for \<open>(a, b)\<close>.
\<close>

fun insertBy :: "('a \<Rightarrow> 'a \<Rightarrow> rat) \<Rightarrow> 'a \<Rightarrow> 'a list \<Rightarrow> 'a list" where
  "insertBy cmp x [] = [x]"
| "insertBy cmp x (y # ys) = (if cmp x y \<le> 0 then x # y # ys else y # insertBy cmp x ys)"

definition Array_sort :: "('a \<Rightarrow> 'a \<Rightarrow> rat) \<Rightarrow> 'a list \<Rightarrow> 'a list" where
  "Array_sort cmp xs = foldr (insertBy cmp) xs []"

definition Array_slice0 :: "int \<Rightarrow> 'a list \<Rightarrow> 'a list" where
  \<comment> \<open>\<^verbatim>\<open>xs.slice(0, n)\<close>; a negative \<open>n\<close> counts from the end.\<close>
  "Array_slice0 n xs = (if n < 0 then take (nat (int (length xs) + n)) xs else take (nat n) xs)"

fun Set_of :: "'a list \<Rightarrow> 'a list" where
  \<comment> \<open>\<^verbatim>\<open>[...new Set(xs)]\<close>: the first occurrence of every element, in order.\<close>
  "Set_of [] = []"
| "Set_of (x # xs) = x # filter (\<lambda>y. y \<noteq> x) (Set_of xs)"

text \<open>
  \<^verbatim>\<open>sort()\<close> without a comparator compares the elements as strings. For natural
  numbers these are the decimal digits, compared lexicographically.
\<close>

function decimal :: "nat \<Rightarrow> nat list" where
  "decimal n = (if n < 10 then [n] else decimal (n div 10) @ [n mod 10])"
  by pat_completeness auto
termination
  by (relation "measure (\<lambda>n. n)") auto

fun string_le :: "nat list \<Rightarrow> nat list \<Rightarrow> bool" where
  "string_le [] ys = True"
| "string_le (x # xs) [] = False"
| "string_le (x # xs) (y # ys) = (x < y \<or> (x = y \<and> string_le xs ys))"

definition Array_sort_default :: "nat list \<Rightarrow> nat list" where
  "Array_sort_default xs =
     Array_sort (\<lambda>a b. if string_le (decimal a) (decimal b) then
                          (if string_le (decimal b) (decimal a) then 0 else - 1)
                        else 1) xs"

definition truthy_string :: "string option \<Rightarrow> bool" where
  \<comment> \<open>an optional string in a condition: \<^verbatim>\<open>undefined\<close> and \<^verbatim>\<open>""\<close> are falsy\<close>
  "truthy_string s = (case s of None \<Rightarrow> False | Some v \<Rightarrow> v \<noteq> [])"

definition truthy_number :: "nat option \<Rightarrow> bool" where
  \<comment> \<open>an optional number in a condition: \<^verbatim>\<open>undefined\<close> and \<^verbatim>\<open>0\<close> are falsy\<close>
  "truthy_number n = (case n of None \<Rightarrow> False | Some v \<Rightarrow> v \<noteq> 0)"

section \<open>Data model\<close>

text \<open>
  The records carry the fields the engine reads or writes. An image has further fields
  (source, upload date, quality score, file size, dimensions, tags) that no operation
  below touches.
\<close>

datatype GameMode = daily | streak

datatype PlayerChoice = choice_ai | choice_real

record Image =
  image_id :: string
  filename :: string
  storedFilename :: string
  image_category :: string
  image_difficulty_level :: nat
  is_ai_generated :: bool
  usage_count :: nat

record ImagePair =
  pair_id :: string
  ai_image_id :: string
  real_image_id :: string
  category :: string
  difficulty_level :: nat
  creation_date :: nat
  success_rate :: rat
  total_attempts :: nat
  correct_guesses :: nat
  average_response_time :: rat
  is_active :: bool

record GameSession =
  session_id :: string
  player_id :: "string option"
  game_mode :: GameMode
  start_time :: nat
  end_time :: "nat option"
  total_score :: int
  rounds_completed :: nat
  current_streak :: nat
  is_completed :: bool
  daily_challenge_date :: "string option"

record GameRound =
  round_id :: string
  round_session_id :: string
  round_pair_id :: string
  player_choice :: PlayerChoice
  correct_answer :: PlayerChoice
  is_correct :: bool
  response_time :: rat
  points_earned :: int
  round_number :: nat
  timestamp :: nat

record final_stats =
  correct_answers :: nat
  total_rounds :: nat
  accuracy_percentage :: rat
  stats_average_response_time :: int

record GameResult =
  result_session_id :: string
  result_total_score :: int
  result_rounds_completed :: nat
  result_current_streak :: nat
  result_is_completed :: bool
  result_final_stats :: final_stats

record CreateGameSessionData =
  data_game_mode :: GameMode
  data_player_id :: "string option"

record CreateGameRoundData =
  data_session_id :: string
  data_pair_id :: string
  data_player_choice :: PlayerChoice
  data_response_time :: rat

record CreateImagePairData =
  data_ai_image_id :: string
  data_real_image_id :: string

record PairSelectionCriteria =
  criteria_category :: "string option"
  criteria_difficulty :: "nat option"
  excludePairIds :: "string list option"
  activeOnly :: "bool option"

text \<open>
  A \<^verbatim>\<open>Partial<GameSession>\<close> and a \<^verbatim>\<open>Partial<ImagePair>\<close>, with the fields
  that the callers of \<^verbatim>\<open>updateGameSession\<close> and \<^verbatim>\<open>updateImagePair\<close> pass;
  \<open>None\<close> is a field that is absent.
\<close>

record GameSessionUpdates =
  upd_total_score :: "int option"
  upd_rounds_completed :: "nat option"
  upd_current_streak :: "nat option"
  upd_is_completed :: "bool option"
  upd_end_time :: "nat option"

record ImagePairUpdates =
  upd_total_attempts :: "nat option"
  upd_correct_guesses :: "nat option"
  upd_success_rate :: "rat option"
  upd_average_response_time :: "rat option"
  upd_is_active :: "bool option"

record PairFilters =
  filter_category :: "string option"
  filter_difficulty :: "nat option"
  filter_is_active :: "bool option"

datatype error =
    GameSessionNotFound
  | GameSessionAlreadyCompleted
  | ImagePairNotFound
  | DailyChallengeAlreadyCompleted
  | FailedToUpdateGameSession
  | NoImagePairsAvailable
  | NoSuitableImagePairs
  | FailedToLoadImagePairData
  | ImagesNotFound
  | ImagesOfOneKind
  | AiImageNotAi
  | RealImageNotReal
  | ImagePairAlreadyExists

section \<open>DatabaseService\<close>

record DatabaseService =
  images :: "(string \<times> Image) list"
  imagePairs :: "(string \<times> ImagePair) list"
  gameSessions :: "(string \<times> GameSession) list"
  gameRounds :: "(string \<times> GameRound) list"

definition getImage :: "DatabaseService \<Rightarrow> string \<Rightarrow> Image option" where
  "getImage db i = Map_get (images db) i"

definition updateImage_usage_count :: "DatabaseService \<Rightarrow> string \<Rightarrow> nat \<Rightarrow> DatabaseService" where
  \<comment> \<open>\<^verbatim>\<open>updateImage(id, { usage_count: n })\<close>\<close>
  "updateImage_usage_count db i n =
     (case Map_get (images db) i of
        None \<Rightarrow> db
      | Some img \<Rightarrow> db\<lparr>images := Map_set i (img\<lparr>usage_count := n\<rparr>) (images db)\<rparr>)"

definition db_createImagePair :: "DatabaseService \<Rightarrow> ImagePair \<Rightarrow> DatabaseService" where
  "db_createImagePair db pair = db\<lparr>imagePairs := Map_set (pair_id pair) pair (imagePairs db)\<rparr>"

definition getImagePair :: "DatabaseService \<Rightarrow> string \<Rightarrow> ImagePair option" where
  "getImagePair db i = Map_get (imagePairs db) i"

definition db_getAllImagePairs :: "DatabaseService \<Rightarrow> PairFilters option \<Rightarrow> ImagePair list" where
  "db_getAllImagePairs db filters =
     (let pairs = Map_values (imagePairs db) in
      case filters of
        None \<Rightarrow> pairs
      | Some f \<Rightarrow>
          let pairs = (if truthy_string (filter_category f)
                       then filter (\<lambda>pair. Some (category pair) = filter_category f) pairs
                       else pairs);
              pairs = (if truthy_number (filter_difficulty f)
                       then filter (\<lambda>pair. Some (difficulty_level pair) = filter_difficulty f) pairs
                       else pairs);
              pairs = (if filter_is_active f \<noteq> None
                       then filter (\<lambda>pair. Some (is_active pair) = filter_is_active f) pairs
                       else pairs)
          in pairs)"

definition applyImagePairUpdates :: "ImagePair \<Rightarrow> ImagePairUpdates \<Rightarrow> ImagePair" where
  \<comment> \<open>\<^verbatim>\<open>{ ...pair, ...updates }\<close>\<close>
  "applyImagePairUpdates pair u =
     pair\<lparr>total_attempts := (case upd_total_attempts u of None \<Rightarrow> total_attempts pair | Some v \<Rightarrow> v),
          correct_guesses := (case upd_correct_guesses u of None \<Rightarrow> correct_guesses pair | Some v \<Rightarrow> v),
          success_rate := (case upd_success_rate u of None \<Rightarrow> success_rate pair | Some v \<Rightarrow> v),
          average_response_time :=
            (case upd_average_response_time u of None \<Rightarrow> average_response_time pair | Some v \<Rightarrow> v),
          is_active := (case upd_is_active u of None \<Rightarrow> is_active pair | Some v \<Rightarrow> v)\<rparr>"

definition updateImagePair ::
  "DatabaseService \<Rightarrow> string \<Rightarrow> ImagePairUpdates \<Rightarrow> DatabaseService \<times> ImagePair option" where
  "updateImagePair db i updates =
     (case Map_get (imagePairs db) i of
        None \<Rightarrow> (db, None)
      | Some pair \<Rightarrow>
          let updatedPair = applyImagePairUpdates pair updates
          in (db\<lparr>imagePairs := Map_set i updatedPair (imagePairs db)\<rparr>, Some updatedPair))"

definition createGameSession :: "DatabaseService \<Rightarrow> GameSession \<Rightarrow> DatabaseService" where
  "createGameSession db session =
     db\<lparr>gameSessions := Map_set (session_id session) session (gameSessions db)\<rparr>"

definition getGameSession :: "DatabaseService \<Rightarrow> string \<Rightarrow> GameSession option" where
  "getGameSession db i = Map_get (gameSessions db) i"

definition applyGameSessionUpdates :: "GameSession \<Rightarrow> GameSessionUpdates \<Rightarrow> GameSession" where
  \<comment> \<open>\<^verbatim>\<open>{ ...session, ...updates }\<close>\<close>
  "applyGameSessionUpdates session u =
     session\<lparr>total_score := (case upd_total_score u of None \<Rightarrow> total_score session | Some v \<Rightarrow> v),
             rounds_completed :=
               (case upd_rounds_completed u of None \<Rightarrow> rounds_completed session | Some v \<Rightarrow> v),
             current_streak :=
               (case upd_current_streak u of None \<Rightarrow> current_streak session | Some v \<Rightarrow> v),
             is_completed := (case upd_is_completed u of None \<Rightarrow> is_completed session | Some v \<Rightarrow> v),
             end_time := (case upd_end_time u of None \<Rightarrow> end_time session | Some v \<Rightarrow> Some v)\<rparr>"

definition updateGameSession ::
  "DatabaseService \<Rightarrow> string \<Rightarrow> GameSessionUpdates \<Rightarrow> DatabaseService \<times> GameSession option" where
  "updateGameSession db i updates =
     (case Map_get (gameSessions db) i of
        None \<Rightarrow> (db, None)
      | Some session \<Rightarrow>
          let updatedSession = applyGameSessionUpdates session updates
          in (db\<lparr>gameSessions := Map_set i updatedSession (gameSessions db)\<rparr>, Some updatedSession))"

definition createGameRound :: "DatabaseService \<Rightarrow> GameRound \<Rightarrow> DatabaseService" where
  "createGameRound db r = db\<lparr>gameRounds := Map_set (round_id r) r (gameRounds db)\<rparr>"

definition getGameRoundsBySession :: "DatabaseService \<Rightarrow> string \<Rightarrow> GameRound list" where
  "getGameRoundsBySession db sessionId =
     Array_sort (\<lambda>a b. of_nat (round_number a) - of_nat (round_number b))
       (filter (\<lambda>r. round_session_id r = sessionId) (Map_values (gameRounds db)))"

section \<open>ImageService\<close>

definition getImageById :: "DatabaseService \<Rightarrow> string \<Rightarrow> Image option" where
  "getImageById db i = getImage db i"

definition incrementUsageCount :: "DatabaseService \<Rightarrow> string \<Rightarrow> DatabaseService" where
  "incrementUsageCount db i =
     (case getImage db i of
        None \<Rightarrow> db
      | Some img \<Rightarrow> updateImage_usage_count db i (usage_count img + 1))"

section \<open>ImagePairService\<close>

definition createImagePair ::
  "DatabaseService \<Rightarrow> string \<Rightarrow> nat \<Rightarrow> CreateImagePairData \<Rightarrow> DatabaseService \<times> (error + ImagePair)" where
  "createImagePair db new_id now data =
     (case (getImageById db (data_ai_image_id data), getImageById db (data_real_image_id data)) of
        (Some aiImage, Some realImage) \<Rightarrow>
          if is_ai_generated aiImage = is_ai_generated realImage then (db, Inl ImagesOfOneKind)
          else if \<not> is_ai_generated aiImage then (db, Inl AiImageNotAi)
          else if is_ai_generated realImage then (db, Inl RealImageNotReal)
          else
            let existingPairs = db_getAllImagePairs db None;
                duplicatePair = find (\<lambda>pair.
                    (ai_image_id pair = data_ai_image_id data \<and> real_image_id pair = data_real_image_id data)
                  \<or> (ai_image_id pair = data_real_image_id data \<and> real_image_id pair = data_ai_image_id data))
                  existingPairs
            in if duplicatePair \<noteq> None then (db, Inl ImagePairAlreadyExists)
               else
                 let imagePair = \<lparr>pair_id = new_id,
                                  ai_image_id = data_ai_image_id data,
                                  real_image_id = data_real_image_id data,
                                  category = image_category aiImage,
                                  difficulty_level =
                                    max (image_difficulty_level aiImage) (image_difficulty_level realImage),
                                  creation_date = now,
                                  success_rate = 0,
                                  total_attempts = 0,
                                  correct_guesses = 0,
                                  average_response_time = 0,
                                  is_active = True\<rparr>
                 in (db_createImagePair db imagePair, Inr imagePair)
      | _ \<Rightarrow> (db, Inl ImagesNotFound))"

definition getImagePairById :: "DatabaseService \<Rightarrow> string \<Rightarrow> ImagePair option" where
  "getImagePairById db i = getImagePair db i"

record ImageSummary =
  summary_id :: string
  summary_filename :: string
  summary_storedFilename :: string
  summary_category :: string
  summary_difficulty_level :: nat

record ImagePairWithImages =
  with_pair :: ImagePair
  ai_image :: ImageSummary
  real_image :: ImageSummary

definition summary_of :: "Image \<Rightarrow> ImageSummary" where
  "summary_of img =
     \<lparr>summary_id = image_id img, summary_filename = filename img,
      summary_storedFilename = storedFilename img, summary_category = image_category img,
      summary_difficulty_level = image_difficulty_level img\<rparr>"

definition getImagePairWithImages :: "DatabaseService \<Rightarrow> string \<Rightarrow> ImagePairWithImages option" where
  "getImagePairWithImages db i =
     (case getImagePair db i of
        None \<Rightarrow> None
      | Some pair \<Rightarrow>
          (case (getImageById db (ai_image_id pair), getImageById db (real_image_id pair)) of
             (Some aiImage, Some realImage) \<Rightarrow>
               Some \<lparr>with_pair = pair, ai_image = summary_of aiImage, real_image = summary_of realImage\<rparr>
           | _ \<Rightarrow> None))"

record PairPage =
  pairs :: "ImagePair list"
  total :: nat
  page_number :: nat
  totalPages :: nat

definition getAllImagePairs ::
  "DatabaseService \<Rightarrow> PairFilters \<Rightarrow> nat option \<Rightarrow> nat option \<Rightarrow> PairPage" where
  \<comment> \<open>the paginated listing; \<open>page_opt\<close> and \<open>limit_opt\<close> are \<^verbatim>\<open>filters.page\<close>
      and \<^verbatim>\<open>filters.limit\<close>\<close>
  "getAllImagePairs db filters page_opt limit_opt =
     (let allPairs = db_getAllImagePairs db (Some filters);
          page = (case page_opt of None \<Rightarrow> 1 | Some v \<Rightarrow> if v = 0 then 1 else v);
          limit = (case limit_opt of None \<Rightarrow> 20 | Some v \<Rightarrow> if v = 0 then 20 else v);
          startIndex = (page - 1) * limit;
          endIndex = startIndex + limit;
          paginatedPairs = take (endIndex - startIndex) (drop startIndex allPairs);
          pages = (length allPairs + limit - 1) div limit
      in \<lparr>pairs = paginatedPairs, total = length allPairs, page_number = page, totalPages = pages\<rparr>)"

definition availablePairs :: "DatabaseService \<Rightarrow> PairSelectionCriteria \<Rightarrow> ImagePair list" where
  \<comment> \<open>the candidates of \<^verbatim>\<open>selectPairForGame\<close>: the filtered listing without the
      excluded pairs\<close>
  "availablePairs db criteria =
     (let filters = \<lparr>filter_category = criteria_category criteria,
                     filter_difficulty = criteria_difficulty criteria,
                     filter_is_active = Some (activeOnly criteria \<noteq> Some False)\<rparr>;
          allPairs = db_getAllImagePairs db (Some filters)
      in case excludePairIds criteria of
           None \<Rightarrow> allPairs
         | Some ids \<Rightarrow>
             if length ids > 0 then filter (\<lambda>pair. pair_id pair \<notin> set ids) allPairs
             else allPairs)"

definition pairWeight :: "ImagePair list \<Rightarrow> ImagePair \<Rightarrow> rat" where
  "pairWeight candidates pair =
     (let weight = (1::rat);
          avgUsage = div64 (of_nat (sum_list (map total_attempts candidates)))
                       (of_nat (length candidates));
          weight = (if of_nat (total_attempts pair) < avgUsage then add64 weight (1 / 2)
                    else weight);
          successRateDiff = \<bar>sub64 (success_rate pair) 50\<bar>;
          weight = add64 weight (div64 (sub64 50 successRateDiff) 100)
      in weight)"

definition selectPairForGame ::
  "DatabaseService \<Rightarrow> rat \<Rightarrow> PairSelectionCriteria \<Rightarrow> ImagePair option" where
  \<comment> \<open>\<open>random\<close> is the value of \<^verbatim>\<open>Math.random()\<close>, in \<open>[0, 1)\<close>. An index
      outside the shortlist would raise inside the \<^verbatim>\<open>try\<close>, whose handler
      returns \<^verbatim>\<open>null\<close>. The comparator of the sort is used for its sign, which the
      rounding of a difference of two binary64 values keeps. The product with
      \<open>random\<close> is taken exactly: the binary64 product has the same floor unless it
      rounds up to an integer, and then the code takes the next candidate of the
      shortlist (of at most five, so the index stays inside it).\<close>
  "selectPairForGame db random criteria =
     (let candidates = availablePairs db criteria in
      if length candidates = 0 then None
      else
        let weightedPairs = map (\<lambda>pair. (pair, pairWeight candidates pair)) candidates;
            weightedPairs = Array_sort (\<lambda>a b. snd b - snd a) weightedPairs;
            topCandidates = Array_slice0 (min 5 (int (length weightedPairs))) weightedPairs;
            selectedIndex = Math_floor (random * of_nat (length topCandidates))
        in if 0 \<le> selectedIndex \<and> nat selectedIndex < length topCandidates
           then Some (fst (topCandidates ! nat selectedIndex))
           else None)"

definition shortlist :: "ImagePair list \<Rightarrow> (ImagePair \<times> rat) list" where
  \<comment> \<open>\<^verbatim>\<open>topCandidates\<close> of \<^verbatim>\<open>selectPairForGame\<close>, as a function of the candidates\<close>
  "shortlist candidates =
     (let weightedPairs = map (\<lambda>pair. (pair, pairWeight candidates pair)) candidates;
          weightedPairs = Array_sort (\<lambda>a b. snd b - snd a) weightedPairs
      in Array_slice0 (min 5 (int (length weightedPairs))) weightedPairs)"

definition updatePairStats :: "DatabaseService \<Rightarrow> string \<Rightarrow> bool \<Rightarrow> rat \<Rightarrow> DatabaseService" where
  "updatePairStats db pairId isCorrect responseTime =
     (case getImagePair db pairId of
        None \<Rightarrow> db
      | Some pair \<Rightarrow>
          let newTotalAttempts = total_attempts pair + 1;
              newCorrectGuesses = correct_guesses pair + (if isCorrect then 1 else 0);
              newSuccessRate =
                mul64 (div64 (of_nat newCorrectGuesses) (of_nat newTotalAttempts)) 100;
              totalResponseTime =
                add64 (mul64 (average_response_time pair) (of_nat (total_attempts pair)))
                  responseTime;
              newAverageResponseTime = div64 totalResponseTime (of_nat newTotalAttempts);
              db = fst (updateImagePair db pairId
                     \<lparr>upd_total_attempts = Some newTotalAttempts,
                      upd_correct_guesses = Some newCorrectGuesses,
                      upd_success_rate =
                        Some (div64 (of_int (Math_round (mul64 newSuccessRate 100))) 100),
                      upd_average_response_time = Some (of_int (Math_round newAverageResponseTime)),
                      upd_is_active = None\<rparr>);
              db = incrementUsageCount db (ai_image_id pair);
              db = incrementUsageCount db (real_image_id pair)
          in db)"

section \<open>ScoreCalculator\<close>

definition BASE_SCORE :: rat where
  "BASE_SCORE = 100"

definition DIFFICULTY_MULTIPLIER :: rat where
  "DIFFICULTY_MULTIPLIER = 20"

definition MAX_TIME_BONUS :: rat where
  "MAX_TIME_BONUS = 50"

definition STREAK_BONUS_MULTIPLIER :: rat where
  \<comment> \<open>the literal \<^verbatim>\<open>0.1\<close>\<close>
  "STREAK_BONUS_MULTIPLIER = binary64 (1 / 10)"

definition calculateScore :: "bool \<Rightarrow> rat \<Rightarrow> rat \<Rightarrow> rat \<Rightarrow> int" where
  "calculateScore isCorrect responseTime difficulty currentStreak =
     (if \<not> isCorrect then 0
      else
        let score = BASE_SCORE;
            difficultyBonus = mul64 difficulty DIFFICULTY_MULTIPLIER;
            score = add64 score difficultyBonus;
            responseTimeSeconds = min (div64 responseTime 1000) 30;
            timeBonus = max 0 (sub64 MAX_TIME_BONUS (mul64 responseTimeSeconds 2));
            score = add64 score timeBonus;
            streakMultiplier = add64 1 (mul64 currentStreak STREAK_BONUS_MULTIPLIER);
            score = mul64 score streakMultiplier
        in Math_floor score)"

definition getDifficultyFromStreak :: "nat \<Rightarrow> nat" where
  "getDifficultyFromStreak streak_len =
     (if streak_len < 5 then 1
      else if streak_len < 10 then 2
      else if streak_len < 15 then 3
      else if streak_len < 20 then 4
      else 5)"

section \<open>GameService\<close>

record SubmitResult =
  res_round :: GameRound
  res_isCorrect :: bool
  res_pointsEarned :: int
  res_gameResult :: "GameResult option"

record NextPair =
  next_session_id :: string
  next_pair :: ImagePairWithImages
  next_round_number :: nat
  next_current_streak :: nat
  next_total_score :: int

record PlayerStats =
  stats_player_id :: string
  best_score :: int
  best_streak :: nat
  total_games :: nat
  last_played :: nat

record LeaderboardRow =
  rank :: nat
  row_player_id :: string
  row_best_score :: int
  row_best_streak :: nat
  row_total_games :: nat
  row_last_played :: nat

definition calculatePoints :: "bool \<Rightarrow> rat \<Rightarrow> rat \<Rightarrow> rat \<Rightarrow> GameMode \<Rightarrow> int" where
  "calculatePoints isCorrect responseTime difficulty currentStreak gameMode =
     (if \<not> isCorrect then 0
      else
        let basePoints = (100::rat);
            difficultyMultiplier = mul64 difficulty (binary64 (2 / 10));
            timeBonus = max 0 (mul64 (sub64 30 (div64 responseTime 1000)) 2);
            streakMultiplier =
              (if gameMode = streak then add64 1 (mul64 currentStreak (binary64 (1 / 10)))
               else 1);
            totalPoints =
              mul64 (add64 (add64 basePoints (mul64 basePoints difficultyMultiplier)) timeBonus)
                streakMultiplier
        in Math_round totalPoints)"

definition findTodaysDailySession :: "GameSession list \<Rightarrow> string \<Rightarrow> string \<Rightarrow> GameSession option" where
  \<comment> \<open>the \<^verbatim>\<open>find\<close> of \<^verbatim>\<open>getTodaysDailySession\<close> over the array it is given\<close>
  "findTodaysDailySession allSessions today playerId =
     find (\<lambda>session. player_id session = Some playerId
                    \<and> game_mode session = daily
                    \<and> daily_challenge_date session = Some today) allSessions"

definition getTodaysDailySession :: "DatabaseService \<Rightarrow> string \<Rightarrow> string \<Rightarrow> GameSession option" where
  \<comment> \<open>\<open>today\<close> is \<^verbatim>\<open>getTodayString()\<close>, the date of the engine's clock\<close>
  "getTodaysDailySession db today playerId =
     (let allSessions = Object_values (gameSessions db)
      in findTodaysDailySession allSessions today playerId)"

definition startGameSession ::
  "DatabaseService \<Rightarrow> string \<Rightarrow> nat \<Rightarrow> string \<Rightarrow> CreateGameSessionData
     \<Rightarrow> DatabaseService \<times> (error + GameSession)" where
  "startGameSession db new_id now today data =
     (let session = \<lparr>session_id = new_id,
                     player_id = data_player_id data,
                     game_mode = data_game_mode data,
                     start_time = now,
                     end_time = None,
                     total_score = 0,
                     rounds_completed = 0,
                     current_streak = 0,
                     is_completed = False,
                     daily_challenge_date = (if data_game_mode data = daily then Some today else None)\<rparr>;
          alreadyCompleted =
            (case data_player_id data of
               None \<Rightarrow> False
             | Some playerId \<Rightarrow>
                 data_game_mode data = daily \<and> playerId \<noteq> [] \<and>
                 (case getTodaysDailySession db today playerId of
                    None \<Rightarrow> False
                  | Some existingSession \<Rightarrow> is_completed existingSession))
      in if alreadyCompleted then (db, Inl DailyChallengeAlreadyCompleted)
         else (createGameSession db session, Inr session))"

definition dailyDifficulty :: "nat list \<Rightarrow> nat \<Rightarrow> nat option" where
  \<comment> \<open>the daily policy over the sorted distinct difficulties of the active pairs\<close>
  "dailyDifficulty availableDifficulties roundNumber =
     (if length availableDifficulties > 0 then
        (if length availableDifficulties = 1 then Some (availableDifficulties ! 0)
         else if length availableDifficulties \<ge> 3 then
           (if roundNumber = 1 then Some (availableDifficulties ! 0)
            else if roundNumber = 2
              then Some (availableDifficulties ! (length availableDifficulties div 2))
            else Some (availableDifficulties ! (length availableDifficulties - 1)))
         else Some (availableDifficulties ! (if roundNumber \<le> 2 then 0 else 1)))
      else None)"

definition targetDifficulty :: "DatabaseService \<Rightarrow> GameSession \<Rightarrow> GameRound list \<Rightarrow> nat option" where
  \<comment> \<open>the difficulty that \<^verbatim>\<open>getNextPairForGame\<close> determines from the game mode
      and the progress\<close>
  "targetDifficulty db session playedRounds =
     (case game_mode session of
        daily \<Rightarrow>
          let allPairs = getAllImagePairs db
                \<lparr>filter_category = None, filter_difficulty = None, filter_is_active = Some True\<rparr>
                None None;
              availableDifficulties =
                Array_sort_default (Set_of (map difficulty_level (pairs allPairs)))
          in dailyDifficulty availableDifficulties (length playedRounds + 1)
      | streak \<Rightarrow>
          let streak_len = current_streak session
          in if streak_len < 3 then Some 1
             else if streak_len < 7 then Some 2
             else if streak_len < 12 then Some 3
             else if streak_len < 20 then Some 4
             else Some 5)"

definition getNextPairForGame :: "DatabaseService \<Rightarrow> rat \<Rightarrow> string \<Rightarrow> error + NextPair" where
  \<comment> \<open>\<open>random\<close> is the value of \<^verbatim>\<open>Math.random()\<close>. A selector call draws only
      when it has candidates and then returns one of them, which ends the chain, so one
      operation makes at most one draw.\<close>
  "getNextPairForGame db random sessionId =
     (case getGameSession db sessionId of
        None \<Rightarrow> Inl GameSessionNotFound
      | Some session \<Rightarrow>
          if is_completed session then Inl GameSessionAlreadyCompleted
          else
            let playedRounds = getGameRoundsBySession db sessionId;
                usedPairIds = map round_pair_id playedRounds;
                difficulty = targetDifficulty db session playedRounds;
                pair = selectPairForGame db random
                         \<lparr>criteria_category = None, criteria_difficulty = difficulty,
                          excludePairIds = Some usedPairIds, activeOnly = Some True\<rparr>;
                pair = (if pair = None \<and> difficulty \<noteq> None
                        then selectPairForGame db random
                               \<lparr>criteria_category = None, criteria_difficulty = None,
                                excludePairIds = Some usedPairIds, activeOnly = Some True\<rparr>
                        else pair);
                pair = (if pair = None
                        then selectPairForGame db random
                               \<lparr>criteria_category = None, criteria_difficulty = difficulty,
                                excludePairIds = None, activeOnly = Some True\<rparr>
                        else pair);
                pair = (if pair = None
                        then selectPairForGame db random
                               \<lparr>criteria_category = None, criteria_difficulty = None,
                                excludePairIds = None, activeOnly = Some True\<rparr>
                        else pair)
            in case pair of
                 None \<Rightarrow>
                   let allImages = getAllImagePairs db
                         \<lparr>filter_category = None, filter_difficulty = None,
                          filter_is_active = Some True\<rparr> None None
                   in if length (pairs allImages) = 0 then Inl NoImagePairsAvailable
                      else Inl NoSuitableImagePairs
               | Some selected \<Rightarrow>
                   (case getImagePairWithImages db (pair_id selected) of
                      None \<Rightarrow> Inl FailedToLoadImagePairData
                    | Some pairWithImages \<Rightarrow>
                        Inr \<lparr>next_session_id = sessionId,
                             next_pair = pairWithImages,
                             next_round_number = length playedRounds + 1,
                             next_current_streak = current_streak session,
                             next_total_score = total_score session\<rparr>))"

definition finalUpdates :: "nat \<Rightarrow> GameSessionUpdates option \<Rightarrow> GameSessionUpdates" where
  \<comment> \<open>\<^verbatim>\<open>{ ...updates, is_completed: true, end_time: new Date() }\<close>\<close>
  "finalUpdates now updates =
     (case updates of
        None \<Rightarrow> \<lparr>upd_total_score = None, upd_rounds_completed = None,
                  upd_current_streak = None, upd_is_completed = None, upd_end_time = None\<rparr>
      | Some u \<Rightarrow> u)\<lparr>upd_is_completed := Some True, upd_end_time := Some now\<rparr>"

definition endGameSession ::
  "DatabaseService \<Rightarrow> nat \<Rightarrow> string \<Rightarrow> GameSessionUpdates option
     \<Rightarrow> DatabaseService \<times> (error + GameResult)" where
  \<comment> \<open>\<open>now\<close> is \<^verbatim>\<open>new Date()\<close>; \<open>updates\<close> is the optional second argument\<close>
  "endGameSession db now sessionId updates =
     (case getGameSession db sessionId of
        None \<Rightarrow> (db, Inl GameSessionNotFound)
      | Some session \<Rightarrow>
          (case updateGameSession db sessionId (finalUpdates now updates) of
             (db, None) \<Rightarrow> (db, Inl FailedToUpdateGameSession)
           | (db, Some updatedSession) \<Rightarrow>
               let rounds = getGameRoundsBySession db sessionId;
                   correctAnswers = length (filter is_correct rounds);
                   totalRounds = length rounds;
                   accuracyPercentage =
                     (if totalRounds > 0
                      then mul64 (div64 (of_nat correctAnswers) (of_nat totalRounds)) 100
                      else 0);
                   averageResponseTime =
                     (if totalRounds > 0
                      then div64 (foldl (\<lambda>total r. add64 total (response_time r)) 0 rounds)
                             (of_nat totalRounds)
                      else 0);
                   gameResult =
                     \<lparr>result_session_id = sessionId,
                      result_total_score = total_score updatedSession,
                      result_rounds_completed = rounds_completed updatedSession,
                      result_current_streak = current_streak updatedSession,
                      result_is_completed = True,
                      result_final_stats =
                        \<lparr>correct_answers = correctAnswers,
                         total_rounds = totalRounds,
                         accuracy_percentage =
                           div64 (of_int (Math_round (mul64 accuracyPercentage 100))) 100,
                         stats_average_response_time = Math_round averageResponseTime\<rparr>\<rparr>
               in (db, Inr gameResult)))"

definition roundEndsGame ::
  "DatabaseService \<Rightarrow> nat \<Rightarrow> CreateGameRoundData \<Rightarrow> GameRound \<Rightarrow> bool \<Rightarrow> int
     \<Rightarrow> int \<Rightarrow> nat \<Rightarrow> nat \<Rightarrow> DatabaseService \<times> (error + SubmitResult)" where
  \<comment> \<open>the block that \<^verbatim>\<open>submitPlayerChoice\<close> runs, in the same words, when a streak
      is broken and when a daily game has its third round: end the session, update the
      pair statistics, return the round with the game result\<close>
  "roundEndsGame db now data new_round isCorrect pointsEarned
       newTotalScore newRoundsCompleted newCurrentStreak =
     (case endGameSession db now (data_session_id data)
             (Some \<lparr>upd_total_score = Some newTotalScore,
                    upd_rounds_completed = Some newRoundsCompleted,
                    upd_current_streak = Some newCurrentStreak,
                    upd_is_completed = Some True,
                    upd_end_time = Some now\<rparr>) of
        (db, Inl e) \<Rightarrow> (db, Inl e)
      | (db, Inr gameResult) \<Rightarrow>
          (updatePairStats db (data_pair_id data) isCorrect (data_response_time data),
           Inr \<lparr>res_round = new_round, res_isCorrect = isCorrect,
                res_pointsEarned = pointsEarned, res_gameResult = Some gameResult\<rparr>))"

definition gameContinues ::
  "DatabaseService \<Rightarrow> CreateGameRoundData \<Rightarrow> GameRound \<Rightarrow> bool \<Rightarrow> int
     \<Rightarrow> int \<Rightarrow> nat \<Rightarrow> nat \<Rightarrow> DatabaseService \<times> (error + SubmitResult)" where
  \<comment> \<open>the tail of \<^verbatim>\<open>submitPlayerChoice\<close>: update the session, update the pair
      statistics, return the round without a game result\<close>
  "gameContinues db data new_round isCorrect pointsEarned
       newTotalScore newRoundsCompleted newCurrentStreak =
     (let db = fst (updateGameSession db (data_session_id data)
                \<lparr>upd_total_score = Some newTotalScore,
                 upd_rounds_completed = Some newRoundsCompleted,
                 upd_current_streak = Some newCurrentStreak,
                 upd_is_completed = None,
                 upd_end_time = None\<rparr>);
          db = updatePairStats db (data_pair_id data) isCorrect (data_response_time data)
      in (db, Inr \<lparr>res_round = new_round, res_isCorrect = isCorrect,
                   res_pointsEarned = pointsEarned, res_gameResult = None\<rparr>))"

definition submitPlayerChoice ::
  "DatabaseService \<Rightarrow> string \<Rightarrow> nat \<Rightarrow> CreateGameRoundData
     \<Rightarrow> DatabaseService \<times> (error + SubmitResult)" where
  \<comment> \<open>\<open>new_id\<close> is the round's \<^verbatim>\<open>uuidv4()\<close>, \<open>now\<close> the clock\<close>
  "submitPlayerChoice db new_id now data =
     (case getGameSession db (data_session_id data) of
        None \<Rightarrow> (db, Inl GameSessionNotFound)
      | Some session \<Rightarrow>
          if is_completed session then (db, Inl GameSessionAlreadyCompleted)
          else
            (case getImagePairById db (data_pair_id data) of
               None \<Rightarrow> (db, Inl ImagePairNotFound)
             | Some pair \<Rightarrow>
                 let correctAnswer = choice_ai;
                     isCorrect = (data_player_choice data = correctAnswer);
                     pointsEarned = calculatePoints isCorrect (data_response_time data)
                                      (of_nat (difficulty_level pair))
                                      (of_nat (current_streak session)) (game_mode session);
                     existingRounds = getGameRoundsBySession db (data_session_id data);
                     roundNumber = length existingRounds + 1;
                     new_round = \<lparr>round_id = new_id,
                                  round_session_id = data_session_id data,
                                  round_pair_id = data_pair_id data,
                                  player_choice = data_player_choice data,
                                  correct_answer = correctAnswer,
                                  is_correct = isCorrect,
                                  response_time = data_response_time data,
                                  points_earned = pointsEarned,
                                  round_number = roundNumber,
                                  timestamp = now\<rparr>;
                     db = createGameRound db new_round;
                     newTotalScore = total_score session + pointsEarned;
                     newRoundsCompleted = rounds_completed session + 1;
                     newCurrentStreak = current_streak session
                 in case game_mode session of
                      streak \<Rightarrow>
                        if isCorrect then
                          gameContinues db data new_round isCorrect pointsEarned
                            newTotalScore newRoundsCompleted (newCurrentStreak + 1)
                        else
                          roundEndsGame db now data new_round isCorrect pointsEarned
                            newTotalScore newRoundsCompleted newCurrentStreak
                    | daily \<Rightarrow>
                        if newRoundsCompleted \<ge> 3 then
                          roundEndsGame db now data new_round isCorrect pointsEarned
                            newTotalScore newRoundsCompleted newCurrentStreak
                        else
                          gameContinues db data new_round isCorrect pointsEarned
                            newTotalScore newRoundsCompleted newCurrentStreak))"

definition leaderboardStep :: "(string \<times> PlayerStats) list \<Rightarrow> GameSession \<Rightarrow> (string \<times> PlayerStats) list" where
  \<comment> \<open>the body of the \<^verbatim>\<open>forEach\<close> over the sessions, on the \<^verbatim>\<open>playerStats\<close> map\<close>
  "leaderboardStep playerStats session =
     (let playerId = (case player_id session of
                        None \<Rightarrow> ''anonymous''
                      | Some p \<Rightarrow> if p = [] then ''anonymous'' else p);
          played = (case end_time session of None \<Rightarrow> start_time session | Some e \<Rightarrow> e)
      in case Map_get playerStats playerId of
           None \<Rightarrow>
             Map_set playerId
               \<lparr>stats_player_id = playerId, best_score = total_score session,
                best_streak = current_streak session, total_games = 0 + 1,
                last_played = played\<rparr> playerStats
         | Some existing \<Rightarrow>
             if total_score session > best_score existing then
               Map_set playerId
                 \<lparr>stats_player_id = playerId, best_score = total_score session,
                  best_streak = current_streak session, total_games = total_games existing + 1,
                  last_played = played\<rparr> playerStats
             else
               Map_set playerId
                 (existing\<lparr>total_games := total_games existing + 1,
                           best_streak := max (best_streak existing) (current_streak session),
                           last_played :=
                             (case end_time session of
                                None \<Rightarrow> last_played existing
                              | Some e \<Rightarrow> if e > last_played existing then e
                                          else last_played existing)\<rparr>) playerStats)"

definition rankSessions :: "GameSession list \<Rightarrow> GameMode option \<Rightarrow> int \<Rightarrow> LeaderboardRow list" where
  \<comment> \<open>\<^verbatim>\<open>getLeaderboard\<close> from the array \<^verbatim>\<open>allSessions\<close> on\<close>
  "rankSessions allSessions gameMode limit =
     (let filteredSessions = filter is_completed allSessions;
          filteredSessions = (case gameMode of
                                None \<Rightarrow> filteredSessions
                              | Some m \<Rightarrow> filter (\<lambda>s. game_mode s = m) filteredSessions);
          playerStats = foldl leaderboardStep [] filteredSessions;
          sorted_players = Array_sort (\<lambda>a b. of_int (best_score b) - of_int (best_score a))
                             (Map_values playerStats);
          top = Array_slice0 limit sorted_players
      in map (\<lambda>(index, player).
                \<lparr>rank = index + 1, row_player_id = stats_player_id player,
                 row_best_score = best_score player, row_best_streak = best_streak player,
                 row_total_games = total_games player, row_last_played = last_played player\<rparr>)
             (zip [0..<length top] top))"

definition getLeaderboard :: "DatabaseService \<Rightarrow> GameMode option \<Rightarrow> int \<Rightarrow> LeaderboardRow list" where
  "getLeaderboard db gameMode limit =
     (let allSessions = Object_values (gameSessions db)
      in rankSessions allSessions gameMode limit)"

section \<open>Sessions under sequences of operations\<close>

text \<open>
  The operations that change the store, with the inputs the engine draws itself
  (identifier, clock, today's date) as arguments.
\<close>

datatype operation =
    Start string nat string CreateGameSessionData
  | Submit string nat CreateGameRoundData
  | End nat string "GameSessionUpdates option"

fun perform :: "DatabaseService \<Rightarrow> operation \<Rightarrow> DatabaseService" where
  "perform db (Start new_id now today data) = fst (startGameSession db new_id now today data)"
| "perform db (Submit new_id now data) = fst (submitPlayerChoice db new_id now data)"
| "perform db (End now sessionId updates) = fst (endGameSession db now sessionId updates)"

definition run :: "DatabaseService \<Rightarrow> operation list \<Rightarrow> DatabaseService" where
  "run db ops = foldl perform db ops"

fun starts_other :: "string \<Rightarrow> operation \<Rightarrow> bool" where
  \<comment> \<open>a start draws a fresh identifier, so not the one of a session that exists\<close>
  "starts_other sessionId (Start new_id now today data) = (new_id \<noteq> sessionId)"
| "starts_other sessionId (Submit new_id now data) = True"
| "starts_other sessionId (End now i updates) = True"

definition completed_in :: "DatabaseService \<Rightarrow> string \<Rightarrow> bool" where
  "completed_in db sessionId =
     (case getGameSession db sessionId of None \<Rightarrow> False | Some s \<Rightarrow> is_completed s)"

section \<open>Vocabulary of the properties\<close>

definition roundCompletes :: "GameSession \<Rightarrow> bool \<Rightarrow> bool" where
  \<comment> \<open>whether a round with this correctness ends the session\<close>
  "roundCompletes s correct =
     (case game_mode s of streak \<Rightarrow> \<not> correct | daily \<Rightarrow> rounds_completed s + 1 \<ge> 3)"

definition roundPoints :: "GameSession \<Rightarrow> ImagePair \<Rightarrow> CreateGameRoundData \<Rightarrow> int" where
  \<comment> \<open>the points of a round, from the session and the pair as they are before it\<close>
  "roundPoints s p data =
     calculatePoints (data_player_choice data = choice_ai) (data_response_time data)
       (of_nat (difficulty_level p)) (of_nat (current_streak s)) (game_mode s)"

definition spec_score :: "rat \<Rightarrow> rat \<Rightarrow> rat \<Rightarrow> int" where
  \<comment> \<open>the score of a correct answer as the specification words it, a formula of exact
      arithmetic\<close>
  "spec_score t d s =
     \<lfloor>(100 + d * 20 + max 0 (50 - 2 * min (t / 1000) 30)) * (1 + s * (1 / 10))\<rfloor>"

definition scoreBeforeStreak :: "rat \<Rightarrow> rat \<Rightarrow> rat" where
  \<comment> \<open>the value of \<^verbatim>\<open>score\<close> in \<^verbatim>\<open>calculateScore\<close> before the streak multiplier
      is applied\<close>
  "scoreBeforeStreak responseTime difficulty =
     add64 (add64 BASE_SCORE (mul64 difficulty DIFFICULTY_MULTIPLIER))
       (max 0 (sub64 MAX_TIME_BONUS (mul64 (min (div64 responseTime 1000) 30) 2)))"

definition streakMultiplier :: "rat \<Rightarrow> rat" where
  \<comment> \<open>the value of \<^verbatim>\<open>streakMultiplier\<close> in \<^verbatim>\<open>calculateScore\<close>\<close>
  "streakMultiplier currentStreak = add64 1 (mul64 currentStreak STREAK_BONUS_MULTIPLIER)"

definition spec_score_before_streak :: "rat \<Rightarrow> rat \<Rightarrow> rat" where
  \<comment> \<open>the first factor of the formula of the specification\<close>
  "spec_score_before_streak t d = 100 + d * 20 + max 0 (50 - 2 * min (t / 1000) 30)"

definition round2 :: "rat \<Rightarrow> rat" where
  \<comment> \<open>rounding to two decimals, a tie going up: the meaning given to \<open>round (x, 2)\<close>\<close>
  "round2 x = of_int \<lfloor>x * 100 + 1 / 2\<rfloor> / 100"

definition pair_stats_consistent :: "ImagePair \<Rightarrow> bool" where
  \<comment> \<open>the consistency of a pair's statistics as the specification words it; the rate
      is held as a binary64 value, the one nearest to the two-decimal number\<close>
  "pair_stats_consistent p =
     (correct_guesses p \<le> total_attempts p
      \<and> success_rate p =
          (if total_attempts p = 0 then 0
           else binary64 (round2 (100 * of_nat (correct_guesses p) / of_nat (total_attempts p)))))"

definition storedSuccessRate :: "nat \<Rightarrow> nat \<Rightarrow> rat" where
  \<comment> \<open>the rate that \<^verbatim>\<open>updatePairStats\<close> computes from the new counters:
      \<^verbatim>\<open>Math.round((c / t) * 100 * 100) / 100\<close>\<close>
  "storedSuccessRate c t =
     div64 (of_int (Math_round (mul64 (mul64 (div64 (of_nat c) (of_nat t)) 100) 100))) 100"

definition pair_stats_recorded :: "ImagePair \<Rightarrow> bool" where
  \<comment> \<open>the consistency of a pair's statistics with the rate as the code computes it\<close>
  "pair_stats_recorded p =
     (correct_guesses p \<le> total_attempts p
      \<and> success_rate p =
          (if total_attempts p = 0 then 0
           else storedSuccessRate (correct_guesses p) (total_attempts p)))"

definition recordOutcome :: "ImagePair \<Rightarrow> bool \<Rightarrow> rat \<Rightarrow> ImagePair" where
  \<comment> \<open>the pair that \<^verbatim>\<open>updatePairStats\<close> stores for a pair it finds\<close>
  "recordOutcome pair isCorrect responseTime =
     pair\<lparr>total_attempts := total_attempts pair + 1,
          correct_guesses := correct_guesses pair + (if isCorrect then 1 else 0),
          success_rate :=
            div64 (of_int (Math_round
              (mul64 (mul64 (div64 (of_nat (correct_guesses pair + (if isCorrect then 1 else 0)))
                               (of_nat (total_attempts pair + 1))) 100) 100))) 100,
          average_response_time :=
            of_int (Math_round
              (div64 (add64 (mul64 (average_response_time pair) (of_nat (total_attempts pair)))
                        responseTime)
                 (of_nat (total_attempts pair + 1))))\<rparr>"

definition matchesCriteria :: "PairSelectionCriteria \<Rightarrow> ImagePair \<Rightarrow> bool" where
  \<comment> \<open>a pair of the filtered candidate set: active as asked, of the category and the
      difficulty when given, and not excluded\<close>
  "matchesCriteria criteria pair =
     (is_active pair = (activeOnly criteria \<noteq> Some False)
      \<and> (\<not> truthy_string (criteria_category criteria)
           \<or> Some (category pair) = criteria_category criteria)
      \<and> (\<not> truthy_number (criteria_difficulty criteria)
           \<or> Some (difficulty_level pair) = criteria_difficulty criteria)
      \<and> (case excludePairIds criteria of None \<Rightarrow> True | Some ids \<Rightarrow> pair_id pair \<notin> set ids))"

definition completedDailySessions :: "DatabaseService \<Rightarrow> string \<Rightarrow> string \<Rightarrow> string list" where
  \<comment> \<open>the identifiers of the completed daily sessions of a player and a date\<close>
  "completedDailySessions db player date =
     map session_id
       (filter (\<lambda>s. game_mode s = daily \<and> player_id s = Some player
                   \<and> daily_challenge_date s = Some date \<and> is_completed s)
          (Map_values (gameSessions db)))"

section \<open>Example stores\<close>

definition example_pair :: ImagePair where
  "example_pair =
     \<lparr>pair_id = ''p1'', ai_image_id = ''a1'', real_image_id = ''r1'', category = ''portrait'',
      difficulty_level = 5, creation_date = 0, success_rate = 0, total_attempts = 0,
      correct_guesses = 0, average_response_time = 0, is_active = True\<rparr>"

definition example_streak_session :: GameSession where
  "example_streak_session =
     \<lparr>session_id = ''s1'', player_id = Some ''alice'', game_mode = streak, start_time = 0,
      end_time = None, total_score = 0, rounds_completed = 0, current_streak = 0,
      is_completed = False, daily_challenge_date = None\<rparr>"

definition example_daily_session :: GameSession where
  "example_daily_session =
     \<lparr>session_id = ''s2'', player_id = Some ''alice'', game_mode = daily, start_time = 0,
      end_time = None, total_score = 0, rounds_completed = 0, current_streak = 0,
      is_completed = False, daily_challenge_date = Some ''2024-01-01''\<rparr>"

definition example_db :: DatabaseService where
  "example_db =
     \<lparr>images = [], imagePairs = [(''p1'', example_pair)],
      gameSessions = [(''s1'', example_streak_session), (''s2'', example_daily_session)],
      gameRounds = []\<rparr>"

definition empty_db :: DatabaseService where
  "empty_db = \<lparr>images = [], imagePairs = [], gameSessions = [], gameRounds = []\<rparr>"

definition example_choice :: "string \<Rightarrow> PlayerChoice \<Rightarrow> rat \<Rightarrow> CreateGameRoundData" where
  \<comment> \<open>a choice on the pair \<open>p1\<close> after the given response time\<close>
  "example_choice sessionId choice ms =
     \<lparr>data_session_id = sessionId, data_pair_id = ''p1'', data_player_choice = choice,
      data_response_time = ms\<rparr>"

definition example_image :: "string \<Rightarrow> bool \<Rightarrow> Image" where
  "example_image i ai =
     \<lparr>image_id = i, filename = ''photo.jpg'', storedFilename = i, image_category = ''portrait'',
      image_difficulty_level = 1, is_ai_generated = ai, usage_count = 0\<rparr>"

definition easy_pair :: ImagePair where
  "easy_pair =
     \<lparr>pair_id = ''p2'', ai_image_id = ''a2'', real_image_id = ''r2'', category = ''portrait'',
      difficulty_level = 1, creation_date = 0, success_rate = 0, total_attempts = 0,
      correct_guesses = 0, average_response_time = 0, is_active = True\<rparr>"

definition selection_db :: DatabaseService where
  "selection_db =
     \<lparr>images = [(''a1'', example_image ''a1'' True), (''r1'', example_image ''r1'' False),
                (''a2'', example_image ''a2'' True), (''r2'', example_image ''r2'' False)],
      imagePairs = [(''p1'', example_pair), (''p2'', easy_pair)],
      gameSessions = [(''s1'', example_streak_session)],
      gameRounds = []\<rparr>"

definition finished_session :: "string \<Rightarrow> string \<Rightarrow> int \<Rightarrow> GameSession" where
  "finished_session sessionId player score =
     \<lparr>session_id = sessionId, player_id = Some player, game_mode = streak, start_time = 0,
      end_time = Some 10, total_score = score, rounds_completed = 5, current_streak = 4,
      is_completed = True, daily_challenge_date = None\<rparr>"

definition leaderboard_db :: DatabaseService where
  "leaderboard_db =
     \<lparr>images = [], imagePairs = [],
      gameSessions = [(''sA'', finished_session ''sA'' ''A'' 300),
                      (''sB'', finished_session ''sB'' ''B'' 500),
                      (''sC'', finished_session ''sC'' ''C'' 500),
                      (''sD'', finished_session ''sD'' ''D'' 100)],
      gameRounds = []\<rparr>"

definition alice_daily :: CreateGameSessionData where
  "alice_daily = \<lparr>data_game_mode = daily, data_player_id = Some ''alice''\<rparr>"

definition attempts_db :: DatabaseService where
  \<comment> \<open>the example store after 159 recorded outcomes on the pair \<open>p1\<close>, 22 of them
      correct\<close>
  "attempts_db =
     foldl (\<lambda>db isCorrect. updatePairStats db ''p1'' isCorrect 1200) example_db
       (replicate 22 True @ replicate 137 False)"

definition completed_daily_db :: DatabaseService where
  \<comment> \<open>the store after alice has started and ended the daily session of 2024-01-01\<close>
  "completed_daily_db =
     run empty_db [Start ''s1'' 1 ''2024-01-01'' alice_daily, End 2 ''s1'' None]"

section \<open>Auxiliary facts\<close>

subsection \<open>Rounding to binary64\<close>

lemma pow2_pos: "0 < pow2 n"
  by (simp add: pow2_def)

lemma pow2_powi: "pow2 n = 2 powi n"
  by (simp add: pow2_def power_int_def field_simps)

lemma pow2_add: "pow2 (m + n) = pow2 m * pow2 n"
  by (simp add: pow2_powi power_int_add)

lemma pow2_mono: "m \<le> n \<Longrightarrow> pow2 m \<le> pow2 n"
proof -
  assume "m \<le> n"
  have "pow2 k = 2 powi k" for k by (simp add: pow2_def power_int_def field_simps)
  then show ?thesis using \<open>m \<le> n\<close> by (simp add: power_int_increasing)
qed

lemma pow2_less_cancel: "pow2 m < pow2 n \<Longrightarrow> m < n"
  using pow2_mono[of n m] by (cases "m < n") simp_all

lemma round_half_even_eqI:
  assumes "\<bar>y - of_int n\<bar> < 1 / 2"
  shows "round_half_even y = n"
proof (cases "of_int n \<le> y")
  case True
  with assms have "y < of_int n + 1 / 2" by simp
  with True have f: "\<lfloor>y\<rfloor> = n" by (simp add: floor_eq_iff)
  with assms True show ?thesis by (simp add: round_half_even_def Let_def)
next
  case False
  with assms have b: "of_int n - 1 / 2 < y" "y < of_int n" by (simp_all add: abs_less_iff)
  then have f: "\<lfloor>y\<rfloor> = n - 1" by (simp add: floor_eq_iff)
  with b show ?thesis by (simp add: round_half_even_def Let_def)
qed

lemma round_half_even_tie:
  assumes "y = of_int n + 1 / 2"
  shows "round_half_even y = (if even n then n else n + 1)"
proof -
  have "\<lfloor>y\<rfloor> = n" using assms by (simp add: floor_eq_iff)
  then show ?thesis using assms by (simp add: round_half_even_def Let_def)
qed

lemma round_half_even_near: "\<bar>of_int (round_half_even y) - y\<bar> \<le> 1 / 2"
proof -
  have "of_int \<lfloor>y\<rfloor> \<le> y" "y < of_int \<lfloor>y\<rfloor> + 1" by linarith+
  then show ?thesis by (simp add: round_half_even_def Let_def abs_le_iff)
qed

lemma bitlen_eqI:
  assumes "0 \<le> k" "2 ^ nat k \<le> n" "n < 2 ^ nat (k + 1)"
  shows "bitlen n = k + 1"
proof (rule antisym)
  show "bitlen n \<le> k + 1" using assms by (simp add: bitlen_le_iff_power)
  show "k + 1 \<le> bitlen n" using assms by (simp add: bitlen_ge_iff_power nat_add_distrib)
qed

lemma exponent_of_eqI:
  assumes "pow2 k \<le> \<bar>x\<bar>" "\<bar>x\<bar> < pow2 (k + 1)"
  shows "exponent_of x = k"
proof (cases "0 \<le> k")
  case True
  have "(1::rat) \<le> 2 ^ nat k" by simp
  also have "\<dots> \<le> \<bar>x\<bar>" using assms(1) True by (simp add: pow2_def)
  finally have one: "1 \<le> \<bar>x\<bar>" .
  have lo: "(2::int) ^ nat k \<le> \<lfloor>\<bar>x\<bar>\<rfloor>"
    using assms(1) True by (simp add: pow2_def le_floor_iff)
  have hi: "\<lfloor>\<bar>x\<bar>\<rfloor> < (2::int) ^ nat (k + 1)"
    using assms(2) True by (simp add: pow2_def floor_less_iff)
  have "bitlen \<lfloor>\<bar>x\<bar>\<rfloor> = k + 1"
    using True lo hi by (rule bitlen_eqI)
  then show ?thesis using one by (simp add: exponent_of_def)
next
  case False
  then have k: "k < 0" by simp
  let ?y = "1 / \<bar>x\<bar>"
  let ?j = "- (k + 1)"
  have j: "0 \<le> ?j" using k by simp
  have pk: "pow2 k = 1 / 2 ^ nat (?j + 1)" using k by (simp add: pow2_def)
  have pk1: "pow2 (k + 1) = 1 / 2 ^ nat ?j"
    using k by (cases "k + 1 = 0") (simp_all add: pow2_def)
  have "pow2 (k + 1) \<le> 1" unfolding pk1 by simp
  with assms(2) have x1: "\<bar>x\<bar> < 1" by simp
  have x0: "x \<noteq> 0" using assms(1) pow2_pos[of k] by auto
  then have xp: "0 < \<bar>x\<bar>" by simp
  have yhi: "?y \<le> 2 ^ nat (?j + 1)"
    using assms(1) xp unfolding pk by (simp add: field_simps)
  have ylo: "2 ^ nat ?j < ?y"
    using assms(2) xp unfolding pk1 by (simp add: field_simps)
  have chi: "\<lceil>?y\<rceil> \<le> 2 ^ nat (?j + 1)"
    using yhi by (simp add: ceiling_le_iff)
  have clo: "2 ^ nat ?j < \<lceil>?y\<rceil>"
    using ylo by (simp add: less_ceiling_iff)
  have "bitlen (\<lceil>?y\<rceil> - 1) = ?j + 1"
    using j clo chi by (intro bitlen_eqI) simp_all
  then show ?thesis using x1 x0 by (simp add: exponent_of_def)
qed

lemma exponent_of_bounds:
  assumes "x \<noteq> 0"
  shows "pow2 (exponent_of x) \<le> \<bar>x\<bar> \<and> \<bar>x\<bar> < pow2 (exponent_of x + 1)"
proof (cases "1 \<le> \<bar>x\<bar>")
  case True
  let ?n = "\<lfloor>\<bar>x\<bar>\<rfloor>"
  have n: "0 < ?n" using True by simp
  have e: "exponent_of x = bitlen ?n - 1" using True by (simp add: exponent_of_def)
  have b1: "1 \<le> bitlen ?n" using n bitlen_eq_zero_iff[of ?n] bitlen_nonneg[of ?n] by simp
  from bitlen_bounds[OF n] have lo: "2 ^ nat (bitlen ?n - 1) \<le> ?n" and hi: "?n < 2 ^ nat (bitlen ?n)"
    by simp_all
  have "(of_int (2 ^ nat (bitlen ?n - 1)) :: rat) \<le> of_int ?n" using lo by (simp only: of_int_le_iff)
  also have "\<dots> \<le> \<bar>x\<bar>" by simp
  finally have 1: "pow2 (exponent_of x) \<le> \<bar>x\<bar>" using b1 by (simp add: e pow2_def)
  have "?n + 1 \<le> 2 ^ nat (bitlen ?n)" using hi by simp
  then have "(of_int (?n + 1) :: rat) \<le> of_int (2 ^ nat (bitlen ?n))" by (simp only: of_int_le_iff)
  moreover have "\<bar>x\<bar> < of_int (?n + 1)" by simp linarith
  ultimately have "\<bar>x\<bar> < of_int (2 ^ nat (bitlen ?n))" by linarith
  then have 2: "\<bar>x\<bar> < pow2 (exponent_of x + 1)" using b1 by (simp add: e pow2_def)
  from 1 2 show ?thesis ..
next
  case False
  then have x1: "\<bar>x\<bar> < 1" by simp
  have xp: "0 < \<bar>x\<bar>" using assms by simp
  let ?y = "1 / \<bar>x\<bar>"
  let ?m = "\<lceil>?y\<rceil> - 1"
  have y1: "1 < ?y" using x1 xp by (simp add: field_simps)
  then have m: "0 < ?m" by (simp add: less_ceiling_iff)
  have e: "exponent_of x = - bitlen ?m" using x1 assms by (simp add: exponent_of_def)
  have b1: "1 \<le> bitlen ?m" using m bitlen_eq_zero_iff[of ?m] bitlen_nonneg[of ?m] by simp
  from bitlen_bounds[OF m] have lo: "2 ^ nat (bitlen ?m - 1) \<le> ?m" and hi: "?m < 2 ^ nat (bitlen ?m)"
    by simp_all
  have "?y \<le> of_int (?m + 1)" by simp
  also have "\<dots> \<le> of_int (2 ^ nat (bitlen ?m))" using hi by (simp only: of_int_le_iff)
  finally have yhi: "?y \<le> 2 ^ nat (bitlen ?m)" by simp
  have "(of_int (2 ^ nat (bitlen ?m - 1)) :: rat) \<le> of_int ?m" using lo by (simp only: of_int_le_iff)
  also have "\<dots> < ?y" using ceiling_correct[of ?y] by simp
  finally have ylo: "2 ^ nat (bitlen ?m - 1) < ?y" by simp
  have 1: "pow2 (exponent_of x) \<le> \<bar>x\<bar>"
    using yhi xp b1 by (simp add: e pow2_def field_simps)
  have p: "pow2 (exponent_of x + 1) = 1 / 2 ^ nat (bitlen ?m - 1)"
    using b1 by (cases "bitlen ?m = 1") (simp_all add: e pow2_def)
  have 2: "\<bar>x\<bar> < pow2 (exponent_of x + 1)"
    unfolding p using ylo xp by (simp add: field_simps)
  from 1 2 show ?thesis ..
qed

text \<open>
  For a number \<open>x\<close> of exponent \<open>k\<close> in the normal range, \<open>binary64 x\<close> is a
  multiple of \<open>pow2 (k - 52)\<close> at most half of it away from \<open>x\<close>: the multiple
  nearest to \<open>x\<close>, and the even one of the two when \<open>x\<close> lies half way.
\<close>

lemma binary64_near:
  assumes "pow2 k \<le> \<bar>x\<bar>" "\<bar>x\<bar> < pow2 (k + 1)" "- 1022 \<le> k"
  shows "\<exists>n. binary64 x = of_int n * pow2 (k - 52)
             \<and> \<bar>binary64 x - x\<bar> \<le> pow2 (k - 52) / 2"
proof -
  let ?q = "pow2 (k - 52)"
  let ?n = "round_half_even (x / ?q)"
  have q: "0 < ?q" by (rule pow2_pos)
  have b: "binary64 x = of_int ?n * ?q"
    using assms(3) exponent_of_eqI[OF assms(1,2)] by (simp add: binary64_def Let_def max_def)
  have "of_int ?n * ?q - x = (of_int ?n - x / ?q) * ?q"
    using q by (simp add: left_diff_distrib)
  then have "\<bar>of_int ?n * ?q - x\<bar> = \<bar>of_int ?n - x / ?q\<bar> * ?q"
    using q by (simp only: abs_mult abs_of_pos)
  also have "\<dots> \<le> 1 / 2 * ?q"
    using round_half_even_near[of "x / ?q"] q by (intro mult_right_mono) simp_all
  finally show ?thesis using b by auto
qed

lemma binary64_eqI:
  assumes "pow2 k \<le> \<bar>x\<bar>" "\<bar>x\<bar> < pow2 (k + 1)" "- 1022 \<le> k"
    and "\<bar>x / pow2 (k - 52) - of_int n\<bar> < 1 / 2"
  shows "binary64 x = of_int n * pow2 (k - 52)"
  using assms(3,4) exponent_of_eqI[OF assms(1,2)]
  by (simp add: binary64_def Let_def round_half_even_eqI max_def)

lemma binary64_tieI:
  assumes "pow2 k \<le> \<bar>x\<bar>" "\<bar>x\<bar> < pow2 (k + 1)" "- 1022 \<le> k"
    and "x / pow2 (k - 52) = of_int n + 1 / 2"
  shows "binary64 x = of_int (if even n then n else n + 1) * pow2 (k - 52)"
  using assms(3) exponent_of_eqI[OF assms(1,2)] round_half_even_tie[OF assms(4)]
  by (simp add: binary64_def Let_def max_def)

lemma binary64_rel_error:
  assumes "pow2 (- 1022) \<le> \<bar>x\<bar>"
  shows "\<bar>binary64 x - x\<bar> \<le> \<bar>x\<bar> / 2 ^ 53"
proof -
  have x0: "x \<noteq> 0" using assms pow2_pos[of "- 1022"] by auto
  let ?k = "exponent_of x"
  from exponent_of_bounds[OF x0] have b: "pow2 ?k \<le> \<bar>x\<bar>" "\<bar>x\<bar> < pow2 (?k + 1)" by simp_all
  from assms b(2) have "pow2 (- 1022) < pow2 (?k + 1)" by simp
  then have k: "- 1022 \<le> ?k" using pow2_less_cancel by fastforce
  from binary64_near[OF b k] have "\<bar>binary64 x - x\<bar> \<le> pow2 (?k - 52) / 2" by blast
  also have "pow2 (?k - 52) = pow2 ?k * pow2 (- 52)"
  proof -
    have "pow2 j = 2 powi j" for j by (simp add: pow2_def power_int_def field_simps)
    then show ?thesis by (simp add: power_int_diff power_int_minus field_simps)
  qed
  also have "pow2 ?k * pow2 (- 52) / 2 = pow2 ?k / 2 ^ 53" by (simp add: pow2_def)
  also have "\<dots> \<le> \<bar>x\<bar> / 2 ^ 53" using b(1) by (simp add: divide_right_mono)
  finally show ?thesis .
qed

text \<open>
  A number with a significand of at most 53 binary digits is a binary64 value: the
  rounding returns it unchanged. So the arithmetic of whole numbers below 2^53, and of
  their halves, is exact.
\<close>

lemma binary64_dyadic:
  assumes "\<bar>n\<bar> < 2 ^ 53" "- 1022 \<le> j"
  shows "binary64 (of_int n * pow2 j) = of_int n * pow2 j"
proof (cases "n = 0")
  case True
  then show ?thesis by (simp add: binary64_def round_half_even_def Let_def)
next
  case False
  then have n: "0 < \<bar>n\<bar>" by simp
  define k where "k = bitlen \<bar>n\<bar> - 1"
  from bitlen_bounds[OF n] have b: "2 ^ nat k \<le> \<bar>n\<bar>" "\<bar>n\<bar> < 2 ^ nat (k + 1)"
    by (simp_all add: k_def)
  have k0: "0 \<le> k" using n bitlen_eq_zero_iff[of "\<bar>n\<bar>"] bitlen_nonneg[of "\<bar>n\<bar>"]
    by (simp add: k_def)
  have "bitlen \<bar>n\<bar> \<le> 53" using assms(1) by (simp add: bitlen_le_iff_power)
  then have k52: "k \<le> 52" by (simp add: k_def)
  let ?x = "of_int n * pow2 j :: rat"
  have ax: "\<bar>?x\<bar> = of_int \<bar>n\<bar> * pow2 j"
    using pow2_pos[of j] by (simp add: abs_mult)
  have lo: "pow2 (k + j) \<le> \<bar>?x\<bar>"
  proof -
    have "(of_int (2 ^ nat k) :: rat) \<le> of_int \<bar>n\<bar>" using b(1) by (simp only: of_int_le_iff)
    then have "pow2 k \<le> of_int \<bar>n\<bar>" using k0 by (simp add: pow2_def)
    then show ?thesis unfolding ax pow2_add using pow2_pos[of j] by (simp add: mult_right_mono)
  qed
  have hi: "\<bar>?x\<bar> < pow2 (k + j + 1)"
  proof -
    have "(of_int \<bar>n\<bar> :: rat) < of_int (2 ^ nat (k + 1))" using b(2) by (simp only: of_int_less_iff)
    then have "of_int \<bar>n\<bar> < pow2 (k + 1)" using k0 by (simp add: pow2_def)
    moreover have "pow2 (k + j + 1) = pow2 (k + 1) * pow2 j"
      using pow2_add[of "k + 1" j] by (simp add: add.commute add.left_commute)
    ultimately show ?thesis unfolding ax using pow2_pos[of j] by (simp add: mult_strict_right_mono)
  qed
  have kj: "- 1022 \<le> k + j" using k0 assms(2) by simp
  have q: "pow2 j = pow2 (52 - k) * pow2 (k + j - 52)"
    using pow2_add[of "52 - k" "k + j - 52"] by simp
  have i: "pow2 (52 - k) = of_int (2 ^ nat (52 - k))" using k52 by (simp add: pow2_def)
  have "?x / pow2 (k + j - 52) = of_int (n * 2 ^ nat (52 - k))"
    using pow2_pos[of "k + j - 52"] by (simp add: q i)
  then have "\<bar>?x / pow2 (k + j - 52) - of_int (n * 2 ^ nat (52 - k))\<bar> < (1 / 2 :: rat)"
    by simp
  from binary64_eqI[OF lo hi kj this]
  show ?thesis using pow2_pos[of "k + j - 52"] by (simp add: q i)
qed

lemma binary64_of_int:
  assumes "\<bar>n\<bar> < 2 ^ 53"
  shows "binary64 (of_int n) = of_int n"
  using binary64_dyadic[OF assms, of 0] by (simp add: pow2_def)

lemma binary64_of_nat: "n < 2 ^ 53 \<Longrightarrow> binary64 (of_nat n) = of_nat n"
  using binary64_of_int[of "int n"] by simp

lemma binary64_half: "n < 2 ^ 53 \<Longrightarrow> binary64 (of_nat n / 2) = of_nat n / 2"
  using binary64_dyadic[of "int n" "- 1"] by (simp add: pow2_def)

lemma binary64_numeral [simp]:
  "numeral w < (9007199254740992::int) \<Longrightarrow> binary64 (numeral w) = numeral w"
  using binary64_of_int[of "numeral w"] by simp

lemma binary64_neg_numeral [simp]:
  "numeral w < (9007199254740992::int) \<Longrightarrow> binary64 (- numeral w) = - numeral w"
  using binary64_of_int[of "- numeral w"] by simp

lemma binary64_zero [simp]: "binary64 0 = 0"
  using binary64_of_int[of 0] by simp

lemma binary64_one [simp]: "binary64 1 = 1"
  using binary64_of_int[of 1] by simp

lemma binary64_tenth: "binary64 (1 / 10) = 3602879701896397 / 36028797018963968"
  using binary64_eqI[of "- 4" "1 / 10" 7205759403792794]
  by (simp add: pow2_def)

lemma binary64_fifth: "binary64 (1 / 5) = 3602879701896397 / 18014398509481984"
  using binary64_eqI[of "- 3" "1 / 5" 7205759403792794]
  by (simp add: pow2_def)

lemma Math_round_of_int: "Math_round (of_int n) = n"
  unfolding Math_round_def by (rule floor_unique) simp_all

lemma Math_round_numeral [simp]: "Math_round (numeral w) = numeral w"
  using Math_round_of_int[of "numeral w"] by simp

lemma Math_round_zero [simp]: "Math_round 0 = 0"
  using Math_round_of_int[of 0] by simp

subsection \<open>Scores, points and rates at given inputs\<close>

lemma calculateScore_fixtures:
  "calculateScore True 0 5 0 = 250" "calculateScore True 30000 1 0 = 120"
  by (simp_all add: calculateScore_def Let_def Math_floor_def BASE_SCORE_def
      DIFFICULTY_MULTIPLIER_def MAX_TIME_BONUS_def STREAK_BONUS_MULTIPLIER_def
      add64_def sub64_def mul64_def div64_def)

lemma calculateScore_streak_4: "calculateScore True 0 1 4 = 237"
proof -
  have 1: "binary64 (3602879701896397 / 9007199254740992) = 3602879701896397 / 9007199254740992"
    using binary64_eqI[of "- 2" "3602879701896397 / 9007199254740992" 7205759403792794]
    by (simp add: pow2_def)
  have 2: "binary64 (12610078956637389 / 9007199254740992) = 3152519739159347 / 2251799813685248"
    using binary64_tieI[of "0" "12610078956637389 / 9007199254740992" 6305039478318694]
    by (simp add: pow2_def)
  have 3: "binary64 (267964177828544495 / 1125899906842624) = 8373880557142015 / 35184372088832"
    using binary64_eqI[of "7" "267964177828544495 / 1125899906842624" 8373880557142015]
    by (simp add: pow2_def)
  show ?thesis
    by (simp add: calculateScore_def Let_def Math_floor_def BASE_SCORE_def
      DIFFICULTY_MULTIPLIER_def MAX_TIME_BONUS_def STREAK_BONUS_MULTIPLIER_def
      add64_def sub64_def mul64_def div64_def binary64_tenth 1 2 3 floor_eq_iff)
qed

lemma spec_score_streak_4: "spec_score 0 1 4 = 238"
  by (simp add: spec_score_def floor_eq_iff)

lemma calculatePoints_instant: "calculatePoints True 0 5 0 streak = 260"
proof -
  have 1: "binary64 (18014398509481985 / 18014398509481984) = 1"
    using binary64_eqI[of "0" "18014398509481985 / 18014398509481984" 4503599627370496]
    by (simp add: pow2_def)
  show ?thesis
    by (simp add: calculatePoints_def Let_def Math_round_def
      add64_def sub64_def mul64_def div64_def binary64_fifth 1 floor_eq_iff)
qed

lemma calculatePoints_streak_13: "calculatePoints True 2500 1 13 streak = 402"
proof -
  have 2: "binary64 (3602879701896397 / 18014398509481984) = 3602879701896397 / 18014398509481984"
    using binary64_eqI[of "- 3" "3602879701896397 / 18014398509481984" 7205759403792794]
    by (simp add: pow2_def)
  have 3: "binary64 (90071992547409925 / 4503599627370496) = 20"
    using binary64_eqI[of "4" "90071992547409925 / 4503599627370496" 5629499534213120]
    by (simp add: pow2_def)
  have 4: "binary64 (5 / 2) = 5 / 2"
    using binary64_eqI[of "1" "5 / 2" 5629499534213120]
    by (simp add: pow2_def)
  have 5: "binary64 (55 / 2) = 55 / 2"
    using binary64_eqI[of "4" "55 / 2" 7740561859543040]
    by (simp add: pow2_def)
  have 6: "binary64 (46837436124653161 / 36028797018963968) = 5854679515581645 / 4503599627370496"
    using binary64_eqI[of "0" "46837436124653161 / 36028797018963968" 5854679515581645]
    by (simp add: pow2_def)
  have 7: "binary64 (10358279142952141 / 4503599627370496) = 2589569785738035 / 1125899906842624"
    using binary64_tieI[of "1" "10358279142952141 / 4503599627370496" 5179139571476070]
    by (simp add: pow2_def)
  have 8: "binary64 (453174712504156125 / 1125899906842624) = 7080854882877439 / 17592186044416"
    using binary64_eqI[of "8" "453174712504156125 / 1125899906842624" 7080854882877439]
    by (simp add: pow2_def)
  show ?thesis
    by (simp add: calculatePoints_def Let_def Math_round_def
      add64_def sub64_def mul64_def div64_def binary64_fifth binary64_tenth
      2 3 4 5 6 7 8 floor_eq_iff)
qed

lemma storedSuccessRate_23_160:
  "storedSuccessRate 23 160 = 8089590830664253 / 562949953421312"
proof -
  have 1: "binary64 (23 / 160) = 2589569785738035 / 18014398509481984"
    using binary64_eqI[of "- 3" "23 / 160" 5179139571476070]
    by (simp add: pow2_def)
  have 2: "binary64 (64739244643450875 / 4503599627370496) = 8092405580431359 / 562949953421312"
    using binary64_eqI[of "3" "64739244643450875 / 4503599627370496" 8092405580431359]
    by (simp add: pow2_def)
  have 3: "binary64 (202310139510783975 / 140737488355328) = 6322191859711999 / 4398046511104"
    using binary64_eqI[of "10" "202310139510783975 / 140737488355328" 6322191859711999]
    by (simp add: pow2_def)
  have r: "Math_round (6322191859711999 / 4398046511104) = 1437"
    by (simp add: Math_round_def floor_eq_iff)
  have 4: "binary64 (1437 / 100) = 8089590830664253 / 562949953421312"
    using binary64_eqI[of "3" "1437 / 100" 8089590830664253]
    by (simp add: pow2_def)
  show ?thesis
    by (simp add: storedSuccessRate_def mul64_def div64_def 1 2 3 r 4)
qed

lemma round2_23_160:
  "binary64 (round2 (100 * 23 / 160)) = 8095220330198467 / 562949953421312"
proof -
  have 5: "binary64 (719 / 50) = 8095220330198467 / 562949953421312"
    using binary64_eqI[of "3" "719 / 50" 8095220330198467]
    by (simp add: pow2_def)
  have e: "round2 (100 * 23 / 160) = 719 / 50"
    by (simp add: round2_def floor_eq_iff)
  show ?thesis by (subst e) (rule 5)
qed

lemma storedSuccessRate_22_159:
  "storedSuccessRate 22 159 = 3895613677675479 / 281474976710656"
proof -
  have 1: "binary64 (22 / 159) = 4985116568661681 / 36028797018963968"
    using binary64_eqI[of "- 3" "22 / 159" 4985116568661681]
    by (simp add: pow2_def)
  have 2: "binary64 (124627914216542025 / 9007199254740992) = 7789244638533877 / 562949953421312"
    using binary64_eqI[of "3" "124627914216542025 / 9007199254740992" 7789244638533877]
    by (simp add: pow2_def)
  have 3: "binary64 (194731115963346925 / 140737488355328) = 6085347373854591 / 4398046511104"
    using binary64_eqI[of "10" "194731115963346925 / 140737488355328" 6085347373854591]
    by (simp add: pow2_def)
  have r: "Math_round (6085347373854591 / 4398046511104) = 1384"
    by (simp add: Math_round_def floor_eq_iff)
  have 4: "binary64 (346 / 25) = 3895613677675479 / 281474976710656"
    using binary64_eqI[of "3" "346 / 25" 7791227355350958]
    by (simp add: pow2_def)
  show ?thesis
    by (simp add: storedSuccessRate_def mul64_def div64_def 1 2 3 r 4)
qed

lemma round2_22_159:
  "binary64 (round2 (100 * 22 / 159)) = 3895613677675479 / 281474976710656"
proof -
  have 4: "binary64 (346 / 25) = 3895613677675479 / 281474976710656"
    using binary64_eqI[of "3" "346 / 25" 7791227355350958]
    by (simp add: pow2_def)
  have e: "round2 (100 * 22 / 159) = 346 / 25"
    by (simp add: round2_def floor_eq_iff)
  show ?thesis by (subst e) (rule 4)
qed

lemma storedSuccessRate_1_1: "storedSuccessRate 1 1 = 100"
  by (simp add: storedSuccessRate_def mul64_def div64_def)

subsection \<open>The score without a streak\<close>

text \<open>
  With no streak the multiplier is 1 and the only rounding that is not exact is that of
  \<open>t / 1000\<close>. For a whole number of milliseconds the exact score is a whole number
  or at least 1/500 away from one, and the rounding errors add up to less than that.
\<close>

lemma pow2_min_normal: "pow2 (- 1022) \<le> 1 / 2000"
proof -
  have "(2000::rat) \<le> 2 ^ 11" by simp
  also have "\<dots> \<le> 2 ^ 1022" by (rule power_increasing) simp_all
  finally show ?thesis by (simp add: pow2_def field_simps)
qed

lemma calculateScore_no_streak:
  "calculateScore True T D 0 =
     \<lfloor>binary64 (binary64 (binary64 (100 + binary64 (D * 20))
          + max 0 (binary64 (50 - binary64 (min (binary64 (T / 1000)) 30 * 2)))))\<rfloor>"
  by (simp add: calculateScore_def Let_def Math_floor_def BASE_SCORE_def
      DIFFICULTY_MULTIPLIER_def MAX_TIME_BONUS_def add64_def sub64_def mul64_def div64_def)

lemma spec_score_no_streak:
  "spec_score T D 0 = \<lfloor>100 + D * 20 + max 0 (50 - 2 * min (T / 1000) 30)\<rfloor>"
  by (simp add: spec_score_def)

lemma calculateScore_base:
  assumes "d \<le> 5"
  shows "binary64 (100 + binary64 (of_nat d * 20)) = of_nat (100 + 20 * d)"
proof -
  have "binary64 (of_nat d * 20) = of_nat (d * 20)"
    using binary64_of_nat[of "d * 20"] assms by simp
  moreover have "binary64 (100 + of_nat (d * 20)) = of_nat (100 + 20 * d)"
    using binary64_of_nat[of "100 + 20 * d"] assms by (simp add: mult.commute)
  ultimately show ?thesis by simp
qed

lemma binary64_error_normal:
  assumes "1 / 2000 \<le> \<bar>x\<bar>"
  shows "\<bar>binary64 x - x\<bar> \<le> \<bar>x\<bar> / 9007199254740992"
  using binary64_rel_error[of x] pow2_min_normal assms by simp

lemma binary64_bounds_pos:
  assumes "1 / 2000 \<le> x"
  shows "x - x / 9007199254740992 \<le> binary64 x" "binary64 x \<le> x + x / 9007199254740992"
proof -
  have "\<bar>x\<bar> = x" using assms by simp
  with binary64_error_normal[of x] assms have "\<bar>binary64 x - x\<bar> \<le> x / 9007199254740992" by simp
  then show "x - x / 9007199254740992 \<le> binary64 x" "binary64 x \<le> x + x / 9007199254740992"
    unfolding abs_le_iff by linarith+
qed

lemma binary64_negative:
  assumes "x \<le> - (1 / 2000)"
  shows "binary64 x < 0"
proof -
  have "\<bar>x\<bar> = - x" using assms by simp
  with binary64_error_normal[of x] assms have "\<bar>binary64 x - x\<bar> \<le> - x / 9007199254740992" by simp
  then show ?thesis using assms unfolding abs_le_iff by linarith
qed

lemma time_bonus_late:
  assumes "30000 \<le> t"
  shows "max 0 (binary64 (50 - binary64 (min (binary64 (of_nat t / 1000)) 30 * 2))) = 0"
proof -
  let ?x = "of_nat t / 1000 :: rat"
  have "30 \<le> binary64 ?x"
  proof (cases "t = 30000")
    case True
    then show ?thesis by simp
  next
    case False
    with assms have "30001 \<le> t" by simp
    then have "(30001::rat) \<le> of_nat t" by (metis of_nat_le_iff of_nat_numeral)
    then have x: "30001 / 1000 \<le> ?x" by simp
    then have "?x - ?x / 9007199254740992 \<le> binary64 ?x"
      by (intro binary64_bounds_pos) linarith
    with x show ?thesis by linarith
  qed
  then have "min (binary64 ?x) 30 = 30" by simp
  then show ?thesis by simp
qed

lemma time_bonus_after_25:
  assumes "25000 < t" "t < 30000"
  shows "max 0 (binary64 (50 - binary64 (min (binary64 (of_nat t / 1000)) 30 * 2))) = 0"
proof -
  let ?x = "of_nat t / 1000 :: rat"
  let ?y = "binary64 ?x"
  let ?z = "binary64 (?y * 2)"
  from assms have "25001 \<le> t" "t \<le> 29999" by simp_all
  then have "(25001::rat) \<le> of_nat t" "(of_nat t :: rat) \<le> 29999"
    by (metis of_nat_le_iff of_nat_numeral)+
  then have x: "25001 / 1000 \<le> ?x" "?x \<le> 29999 / 1000" by simp_all
  then have "1 / 2000 \<le> ?x" by linarith
  from binary64_bounds_pos[OF this] x
  have y: "250005 / 10000 \<le> ?y" "?y < 30" by linarith+
  then have m: "min ?y 30 = ?y" by simp
  from y have "1 / 2000 \<le> ?y * 2" by linarith
  from binary64_bounds_pos(1)[OF this] y
  have z: "500005 / 10000 \<le> ?z" by linarith
  then have "50 - ?z \<le> - (1 / 2000)" by linarith
  then have "binary64 (50 - ?z) \<le> 0" using binary64_negative by fastforce
  then show ?thesis unfolding m by simp
qed

lemma score_without_time_bonus:
  assumes "d \<le> 5" "25000 \<le> t"
    and "max 0 (binary64 (50 - binary64 (min (binary64 (of_nat t / 1000)) 30 * 2))) = 0"
  shows "calculateScore True (of_nat t) (of_nat d) 0 = spec_score (of_nat t) (of_nat d) 0"
proof -
  have "(25000::rat) \<le> of_nat t" using assms(2) by (metis of_nat_le_iff of_nat_numeral)
  then have "25 \<le> min (of_nat t / 1000 :: rat) 30" by simp
  then have "max 0 (50 - 2 * min (of_nat t / 1000 :: rat) 30) = 0" by simp
  then have "spec_score (of_nat t) (of_nat d) 0 = \<lfloor>of_nat (100 + 20 * d) :: rat\<rfloor>"
    unfolding spec_score_no_streak by (simp add: mult.commute)
  moreover have "binary64 (of_nat (100 + 20 * d)) = of_nat (100 + 20 * d)"
    using assms(1) by (intro binary64_of_nat) simp
  then have "calculateScore True (of_nat t) (of_nat d) 0 = \<lfloor>of_nat (100 + 20 * d) :: rat\<rfloor>"
    unfolding calculateScore_no_streak assms(3) calculateScore_base[OF assms(1)] by simp
  ultimately show ?thesis by simp
qed

lemma score_at_half_seconds:
  assumes "d \<le> 5" "m \<le> 50"
  shows "calculateScore True (of_nat (500 * m)) (of_nat d) 0
           = spec_score (of_nat (500 * m)) (of_nat d) 0"
proof -
  let ?h = "of_nat m / 2 :: rat"
  have x: "(of_nat (500 * m) :: rat) / 1000 = ?h" by simp
  have m30: "?h \<le> 25" using assms(2) by (simp add: of_nat_le_iff[of m 50, where ?'a = rat, simplified])
  have y: "binary64 ?h = ?h" using assms(2) by (intro binary64_half) simp
  have mn: "min ?h 30 = ?h" using m30 by simp
  have z: "binary64 (?h * 2) = of_nat m" using binary64_of_nat[of m] assms(2) by simp
  have "binary64 (of_int (50 - int m)) = (of_int (50 - int m) :: rat)"
    using assms(2) by (intro binary64_of_int) simp
  then have w: "binary64 (50 - of_nat m) = (of_nat (50 - m) :: rat)"
    using assms(2) by (simp add: of_nat_diff)
  have g: "binary64 (of_nat (150 + 20 * d - m)) = (of_nat (150 + 20 * d - m) :: rat)"
    using assms by (intro binary64_of_nat) simp
  have s: "(of_nat (100 + 20 * d) :: rat) + of_nat (50 - m) = of_nat (150 + 20 * d - m)"
    using assms(2) by (simp add: of_nat_diff)
  have "calculateScore True (of_nat (500 * m)) (of_nat d) 0 = int (150 + 20 * d - m)"
    unfolding calculateScore_no_streak x y mn z w calculateScore_base[OF assms(1)]
    by (simp only: max_def s g of_nat_0_le_iff if_True floor_of_nat)
  moreover have "spec_score (of_nat (500 * m)) (of_nat d) 0 = int (150 + 20 * d - m)"
  proof -
    have "(100::rat) + of_nat d * 20 + max 0 (50 - 2 * min ?h 30) = of_nat (150 + 20 * d - m)"
      unfolding mn using assms(2) by (simp add: of_nat_diff)
    then show ?thesis unfolding spec_score_no_streak x by (simp only: floor_of_nat)
  qed
  ultimately show ?thesis by simp
qed

lemma binary64_scaled_bounds:
  assumes "1 / 2000 \<le> x"
  shows "9007199254740991 * x \<le> 9007199254740992 * binary64 x"
    and "9007199254740992 * binary64 x \<le> 9007199254740993 * x"
  using binary64_bounds_pos[OF assms] by linarith+

lemma score_between_half_seconds:
  assumes "d \<le> 5" "t < 25000" "\<not> 500 dvd t"
  shows "calculateScore True (of_nat t) (of_nat d) 0 = spec_score (of_nat t) (of_nat d) 0"
proof -
  define x :: rat where "x = of_nat t / 1000"
  define y where "y = binary64 x"
  define y2 where "y2 = y * 2"
  define z where "z = binary64 y2"
  define v where "v = 50 - z"
  define w where "w = binary64 v"
  define A :: rat where "A = of_nat (100 + 20 * d)"
  define h where "h = A + w"
  define G where "G = binary64 h"
  define F where "F = binary64 G"
  define q r where "q = t div 500" and "r = t mod 500"
  define N where "N = 149 + 20 * int d - int q"
  define D Q R :: rat where "D = of_nat d" and "Q = of_nat q" and "R = of_nat r"
  have t: "t = 500 * q + r" and r: "1 \<le> r" "r \<le> 499"
    using assms(3) by (simp_all add: q_def r_def dvd_eq_mod_eq_0 Suc_leI)
  have q: "q \<le> 49" using assms(2) by (simp add: q_def)
  have rr: "1 \<le> R" "R \<le> 499"
    unfolding R_def using r by (metis of_nat_le_iff of_nat_numeral of_nat_1)+
  have qq: "Q \<le> 49" "0 \<le> Q" unfolding Q_def using q by (metis of_nat_le_iff of_nat_numeral, simp)
  have dd: "D \<le> 5" "0 \<le> D"
    unfolding D_def using assms(1) by (metis of_nat_le_iff of_nat_numeral, simp)
  have xe: "x = Q / 2 + R / 1000" unfolding x_def Q_def R_def t by simp
  have Ae: "A = 100 + 20 * D" by (simp add: A_def D_def)
  have Nr: "(of_int N :: rat) = 149 + 20 * D - Q" by (simp add: N_def D_def Q_def)
  have "1 / 2000 \<le> x" using rr qq unfolding xe by linarith
  note y = binary64_scaled_bounds[OF this, folded y_def]
  have y30: "y < 30" using y(2) qq rr xe by linarith
  then have mn: "min y 30 = y" by simp
  have "1 / 2000 \<le> y2" using y(1) qq rr xe y2_def by linarith
  note z = binary64_scaled_bounds[OF this, folded z_def]
  have "1 / 2000 \<le> v" using z(2) y(2) qq rr xe y2_def v_def by linarith
  note w = binary64_scaled_bounds[OF this, folded w_def]
  have w0: "0 \<le> w" using w(1) z(2) y(2) qq rr xe y2_def v_def by linarith
  then have mx: "max 0 w = w" by simp
  have "1 / 2000 \<le> h" using w0 dd Ae h_def by linarith
  note G = binary64_scaled_bounds[OF this, folded G_def]
  have "1 / 2000 \<le> G" using G(1) w0 dd Ae h_def by linarith
  note F = binary64_scaled_bounds[OF this, folded F_def]
  have lo: "of_int N \<le> F"
    using F(1) G(1) w(1) z(2) y(2) qq rr dd xe Ae Nr y2_def v_def h_def by linarith
  have hi: "F < of_int N + 1"
    using F(2) G(2) w(2) z(1) y(1) qq rr dd xe Ae Nr y2_def v_def h_def by linarith
  have "calculateScore True (of_nat t) (of_nat d) 0 = \<lfloor>F\<rfloor>"
    unfolding calculateScore_no_streak calculateScore_base[OF assms(1)]
    unfolding F_def G_def h_def w_def v_def z_def y2_def A_def
    using mn mx unfolding y_def x_def w_def v_def z_def y2_def by simp
  also have "\<dots> = N" using lo hi by (simp add: floor_eq_iff)
  finally have c: "calculateScore True (of_nat t) (of_nat d) 0 = N" .
  have "max 0 (50 - 2 * min x 30) = 50 - 2 * x" using qq rr xe by simp
  then have "spec_score (of_nat t) (of_nat d) 0 = \<lfloor>100 + D * 20 + (50 - 2 * x)\<rfloor>"
    unfolding spec_score_no_streak x_def D_def by simp
  also have "\<dots> = N"
    unfolding floor_eq_iff Nr using rr xe by linarith
  finally show ?thesis using c by simp
qed


lemma calculateScore_no_streak_exact:
  assumes "d \<le> 5"
  shows "calculateScore True (of_nat t) (of_nat d) 0 = spec_score (of_nat t) (of_nat d) 0"
proof -
  consider "30000 \<le> t" | "25000 < t" "t < 30000" | "t \<le> 25000" "500 dvd t"
    | "t \<le> 25000" "\<not> 500 dvd t"
    by (cases "500 dvd t") linarith+
  then show ?thesis
  proof cases
    case 1
    from score_without_time_bonus[OF assms _ time_bonus_late[OF 1]] 1 show ?thesis by simp
  next
    case 2
    from score_without_time_bonus[OF assms _ time_bonus_after_25[OF 2]] 2 show ?thesis by simp
  next
    case 3
    then obtain m where m: "t = 500 * m" by (auto elim: dvdE)
    with 3 have "m \<le> 50" by simp
    from score_at_half_seconds[OF assms this] show ?thesis unfolding m .
  next
    case 4
    have "500 dvd (25000::nat)" by simp
    with 4 have "t < 25000" by (cases "t = 25000") simp_all
    from score_between_half_seconds[OF assms this 4(2)] show ?thesis .
  qed
qed

subsection \<open>The score with a streak\<close>

text \<open>
  With a streak, the score before the multiplier is within 1/10^13 of its exact
  value and the multiplier within a relative 1/10^15 of its own. The exact
  score is a multiple of 1/5000, so the floor of the rounded product is the floor of the
  exact one, or one below it when the exact product is a whole number.
\<close>

lemma calculateScore_split:
  "calculateScore True t d s = \<lfloor>mul64 (scoreBeforeStreak t d) (streakMultiplier s)\<rfloor>"
  by (simp add: calculateScore_def Let_def Math_floor_def scoreBeforeStreak_def
      streakMultiplier_def)

lemma spec_score_split:
  "spec_score t d s = \<lfloor>spec_score_before_streak t d * (1 + s / 10)\<rfloor>"
  by (simp add: spec_score_def spec_score_before_streak_def)

lemma scoreBeforeStreak_unfold:
  "scoreBeforeStreak T D =
     binary64 (binary64 (100 + binary64 (D * 20))
          + max 0 (binary64 (50 - binary64 (min (binary64 (T / 1000)) 30 * 2))))"
  by (simp add: scoreBeforeStreak_def BASE_SCORE_def
      DIFFICULTY_MULTIPLIER_def MAX_TIME_BONUS_def add64_def sub64_def mul64_def div64_def)

lemma scoreBeforeStreak_without_time_bonus:
  assumes "d \<le> 5" "25000 \<le> t"
    and "max 0 (binary64 (50 - binary64 (min (binary64 (of_nat t / 1000)) 30 * 2))) = 0"
  shows "scoreBeforeStreak (of_nat t) (of_nat d) = spec_score_before_streak (of_nat t) (of_nat d)"
proof -
  have "(25000::rat) \<le> of_nat t" using assms(2) by (metis of_nat_le_iff of_nat_numeral)
  then have "25 \<le> min (of_nat t / 1000 :: rat) 30" by simp
  then have "max 0 (50 - 2 * min (of_nat t / 1000 :: rat) 30) = 0" by simp
  then have "spec_score_before_streak (of_nat t) (of_nat d) = of_nat (100 + 20 * d)"
    unfolding spec_score_before_streak_def by (simp add: mult.commute)
  moreover have "binary64 (of_nat (100 + 20 * d)) = of_nat (100 + 20 * d)"
    using assms(1) by (intro binary64_of_nat) simp
  then have "scoreBeforeStreak (of_nat t) (of_nat d) = of_nat (100 + 20 * d)"
    unfolding scoreBeforeStreak_unfold assms(3) calculateScore_base[OF assms(1)] by simp
  ultimately show ?thesis by simp
qed

lemma scoreBeforeStreak_at_half_seconds:
  assumes "d \<le> 5" "m \<le> 50"
  shows "scoreBeforeStreak (of_nat (500 * m)) (of_nat d)
           = spec_score_before_streak (of_nat (500 * m)) (of_nat d)"
proof -
  let ?h = "of_nat m / 2 :: rat"
  have x: "(of_nat (500 * m) :: rat) / 1000 = ?h" by simp
  have m30: "?h \<le> 25" using assms(2) by (simp add: of_nat_le_iff[of m 50, where ?'a = rat, simplified])
  have y: "binary64 ?h = ?h" using assms(2) by (intro binary64_half) simp
  have mn: "min ?h 30 = ?h" using m30 by simp
  have z: "binary64 (?h * 2) = of_nat m" using binary64_of_nat[of m] assms(2) by simp
  have "binary64 (of_int (50 - int m)) = (of_int (50 - int m) :: rat)"
    using assms(2) by (intro binary64_of_int) simp
  then have w: "binary64 (50 - of_nat m) = (of_nat (50 - m) :: rat)"
    using assms(2) by (simp add: of_nat_diff)
  have g: "binary64 (of_nat (150 + 20 * d - m)) = (of_nat (150 + 20 * d - m) :: rat)"
    using assms by (intro binary64_of_nat) simp
  have s: "(of_nat (100 + 20 * d) :: rat) + of_nat (50 - m) = of_nat (150 + 20 * d - m)"
    using assms(2) by (simp add: of_nat_diff)
  have "scoreBeforeStreak (of_nat (500 * m)) (of_nat d) = of_nat (150 + 20 * d - m)"
    unfolding scoreBeforeStreak_unfold x y mn z w calculateScore_base[OF assms(1)]
    by (simp only: max_def s g of_nat_0_le_iff if_True)
  moreover have "spec_score_before_streak (of_nat (500 * m)) (of_nat d) = of_nat (150 + 20 * d - m)"
    unfolding spec_score_before_streak_def x mn using assms(2) by (simp add: of_nat_diff)
  ultimately show ?thesis by simp
qed

lemma scoreBeforeStreak_between_half_seconds:
  assumes "d \<le> 5" "t < 25000" "\<not> 500 dvd t"
  shows "\<bar>scoreBeforeStreak (of_nat t) (of_nat d)
           - spec_score_before_streak (of_nat t) (of_nat d)\<bar> \<le> 1 / 10000000000000"
proof -
  define x :: rat where "x = of_nat t / 1000"
  define y where "y = binary64 x"
  define y2 where "y2 = y * 2"
  define z where "z = binary64 y2"
  define v where "v = 50 - z"
  define w where "w = binary64 v"
  define A :: rat where "A = of_nat (100 + 20 * d)"
  define h where "h = A + w"
  define G where "G = binary64 h"
  define D :: rat where "D = of_nat d"
  have "t \<noteq> 0" using assms(3) by (cases "t = 0") simp_all
  then have t: "1 \<le> t" "t \<le> 24999" using assms(2) by simp_all
  then have "(1::rat) \<le> of_nat t" "(of_nat t :: rat) \<le> 24999"
    by (metis of_nat_le_iff of_nat_numeral of_nat_1)+
  then have xb: "1 / 1000 \<le> x" "x \<le> 24999 / 1000" unfolding x_def by simp_all
  have dd: "D \<le> 5" "0 \<le> D"
    unfolding D_def using assms(1) by (metis of_nat_le_iff of_nat_numeral, simp)
  have Ae: "A = 100 + 20 * D" by (simp add: A_def D_def)
  have "1 / 2000 \<le> x" using xb by linarith
  note y = binary64_scaled_bounds[OF this, folded y_def]
  have y30: "y < 30" using y(2) xb by linarith
  then have mn: "min y 30 = y" by simp
  have "1 / 2000 \<le> y2" using y(1) xb y2_def by linarith
  note z = binary64_scaled_bounds[OF this, folded z_def]
  have "1 / 2000 \<le> v" using z(2) y(2) xb y2_def v_def by linarith
  note w = binary64_scaled_bounds[OF this, folded w_def]
  have w0: "0 \<le> w" using w(1) z(2) y(2) xb y2_def v_def by linarith
  then have mx: "max 0 w = w" by simp
  have "1 / 2000 \<le> h" using w0 dd Ae h_def by linarith
  note G = binary64_scaled_bounds[OF this, folded G_def]
  have c: "scoreBeforeStreak (of_nat t) (of_nat d) = G"
    unfolding scoreBeforeStreak_unfold calculateScore_base[OF assms(1)]
    unfolding G_def h_def w_def v_def z_def y2_def A_def
    using mn mx unfolding y_def x_def w_def v_def z_def y2_def by simp
  have "max 0 (50 - 2 * min x 30) = 50 - 2 * x" using xb by simp
  then have s: "spec_score_before_streak (of_nat t) (of_nat d) = A + (50 - 2 * x)"
    unfolding spec_score_before_streak_def x_def A_def by simp
  have "G - (A + (50 - 2 * x)) \<le> 1 / 10000000000000"
    using G(2) w(2) z(1) y(1) xb dd Ae y2_def v_def h_def by linarith
  moreover have "- (1 / 10000000000000) \<le> G - (A + (50 - 2 * x))"
    using G(1) w(1) z(2) y(2) xb dd Ae y2_def v_def h_def by linarith
  ultimately show ?thesis unfolding c s abs_le_iff by linarith
qed

lemma scoreBeforeStreak_close:
  assumes "d \<le> 5"
  shows "\<bar>scoreBeforeStreak (of_nat t) (of_nat d)
           - spec_score_before_streak (of_nat t) (of_nat d)\<bar> \<le> 1 / 10000000000000"
proof -
  consider "30000 \<le> t" | "25000 < t" "t < 30000" | "t \<le> 25000" "500 dvd t"
    | "t \<le> 25000" "\<not> 500 dvd t"
    by (cases "500 dvd t") linarith+
  then show ?thesis
  proof cases
    case 1
    from scoreBeforeStreak_without_time_bonus[OF assms _ time_bonus_late[OF 1]] 1
    show ?thesis by simp
  next
    case 2
    from scoreBeforeStreak_without_time_bonus[OF assms _ time_bonus_after_25[OF 2]] 2
    show ?thesis by simp
  next
    case 3
    then obtain m where m: "t = 500 * m" by (auto elim: dvdE)
    with 3 have "m \<le> 50" by simp
    from scoreBeforeStreak_at_half_seconds[OF assms this] show ?thesis unfolding m by simp
  next
    case 4
    have "500 dvd (25000::nat)" by simp
    with 4 have "t < 25000" by (cases "t = 25000") simp_all
    from scoreBeforeStreak_between_half_seconds[OF assms this 4(2)] show ?thesis .
  qed
qed

lemma spec_score_before_streak_grid:
  assumes "d \<le> 5"
  shows "\<exists>a::int. spec_score_before_streak (of_nat t) (of_nat d) = of_int a / 500
           \<and> 50000 \<le> a \<and> a \<le> 125000"
proof (cases "t < 25000")
  case True
  then have "(of_nat t :: rat) < 25000" by (metis of_nat_less_iff of_nat_numeral)
  then have "max 0 (50 - 2 * min (of_nat t / 1000 :: rat) 30) = 50 - of_nat t / 500" by simp
  then have "spec_score_before_streak (of_nat t) (of_nat d)
      = of_int (75000 + 10000 * int d - int t) / 500"
    unfolding spec_score_before_streak_def by (simp add: field_simps)
  then show ?thesis using True assms by (intro exI[of _ "75000 + 10000 * int d - int t"]) simp
next
  case False
  then have "(25000::rat) \<le> of_nat t" by (metis of_nat_le_iff of_nat_numeral not_less)
  then have "25 \<le> min (of_nat t / 1000 :: rat) 30" by simp
  then have "max 0 (50 - 2 * min (of_nat t / 1000 :: rat) 30) = 0" by simp
  then have "spec_score_before_streak (of_nat t) (of_nat d)
      = of_int (50000 + 10000 * int d) / 500"
    unfolding spec_score_before_streak_def by (simp add: field_simps)
  then show ?thesis using assms by (intro exI[of _ "50000 + 10000 * int d"]) simp
qed

lemma streakMultiplier_close:
  assumes "s \<le> 1000000"
  shows "999999999999999 * (1 + of_nat s / 10) \<le> 1000000000000000 * streakMultiplier (of_nat s)"
    and "1000000000000000 * streakMultiplier (of_nat s) \<le> 1000000000000001 * (1 + of_nat s / 10)"
proof -
  define S :: rat where "S = of_nat s"
  define M0 where "M0 = 1 + S / 10"
  define c :: rat where "c = 3602879701896397 / 36028797018963968"
  define sc where "sc = S * c"
  define m1 where "m1 = binary64 sc"
  define h where "h = 1 + m1"
  define M where "M = binary64 h"
  have M0e: "10 * M0 = 10 + S" by (simp add: M0_def)
  have "999999999999999 * M0 \<le> 1000000000000000 * streakMultiplier (of_nat s)
      \<and> 1000000000000000 * streakMultiplier (of_nat s) \<le> 1000000000000001 * M0"
  proof (cases "s = 0")
    case True
    then show ?thesis
      by (simp add: streakMultiplier_def add64_def mul64_def M0_def S_def)
  next
    case False
    then have "1 \<le> s" by simp
    then have S: "1 \<le> S" "S \<le> 1000000"
      unfolding S_def using assms by (metis of_nat_le_iff of_nat_numeral of_nat_1)+
    have sce: "sc = 3602879701896397 / 36028797018963968 * S" by (simp add: sc_def c_def)
    have "1 / 2000 \<le> sc" using S sce by linarith
    note m = binary64_scaled_bounds[OF this, folded m1_def]
    have "1 / 2000 \<le> h" using m(1) S sce h_def by linarith
    note Mb = binary64_scaled_bounds[OF this, folded M_def]
    have e: "streakMultiplier (of_nat s) = M"
      by (simp add: streakMultiplier_def add64_def mul64_def STREAK_BONUS_MULTIPLIER_def
          binary64_tenth M_def h_def m1_def sc_def c_def S_def)
    have "1000000000000000 * M \<le> 1000000000000001 * M0"
      using Mb(2) m(2) S sce h_def M0e by linarith
    moreover have "999999999999999 * M0 \<le> 1000000000000000 * M"
      using Mb(1) m(1) S sce h_def M0e by linarith
    ultimately show ?thesis unfolding e by simp
  qed
  then show "999999999999999 * (1 + of_nat s / 10) \<le> 1000000000000000 * streakMultiplier (of_nat s)"
    and "1000000000000000 * streakMultiplier (of_nat s) \<le> 1000000000000001 * (1 + of_nat s / 10)"
    unfolding M0_def S_def by simp_all
qed

lemma calculateScore_within_one:
  assumes "d \<le> 5" "s \<le> 1000000"
  shows "spec_score (of_nat t) (of_nat d) (of_nat s) - 1
           \<le> calculateScore True (of_nat t) (of_nat d) (of_nat s)
       \<and> calculateScore True (of_nat t) (of_nat d) (of_nat s)
           \<le> spec_score (of_nat t) (of_nat d) (of_nat s)"
proof -
  define P where "P = scoreBeforeStreak (of_nat t) (of_nat d)"
  define S1 where "S1 = spec_score_before_streak (of_nat t) (of_nat d)"
  define M where "M = streakMultiplier (of_nat s)"
  define M0 :: rat where "M0 = 1 + of_nat s / 10"
  define X where "X = S1 * M0"
  define pm where "pm = P * M"
  define F where "F = binary64 pm"
  define k where "k = \<lfloor>X\<rfloor>"
  from spec_score_before_streak_grid[OF assms(1), of t] obtain a :: int where
    a: "S1 = of_int a / 500" "50000 \<le> a" "a \<le> 125000"
    unfolding S1_def by blast
  have "(50000::rat) \<le> of_int a" "(of_int a :: rat) \<le> 125000"
    using a(2,3) by (metis of_int_le_iff of_int_numeral)+
  then have S1b: "100 \<le> S1" "S1 \<le> 250" unfolding a(1) by simp_all
  have "(of_nat s :: rat) \<le> 1000000" using assms(2) by (metis of_nat_le_iff of_nat_numeral)
  then have M0b: "1 \<le> M0" "M0 \<le> 100001" unfolding M0_def by simp_all
  from scoreBeforeStreak_close[OF assms(1), of t]
  have Pb: "S1 - 1 / 10000000000000 \<le> P" "P \<le> S1 + 1 / 10000000000000"
    unfolding P_def S1_def abs_le_iff by linarith+
  note Mb = streakMultiplier_close[OF assms(2), folded M_def M0_def]
  have Xb: "100 * M0 \<le> X" "X \<le> 250 * M0"
    unfolding X_def using S1b M0b by (simp_all add: mult_right_mono)
  have P0: "0 \<le> P" using Pb(1) S1b by linarith
  have M00: "0 \<le> M" using Mb(1) M0b by linarith
  have "pm \<le> (S1 + 1 / 10000000000000) * (1000000000000001 / 1000000000000000 * M0)"
    unfolding pm_def using Pb(2) Mb(2) P0 M00 S1b M0b by (intro mult_mono) linarith+
  also have "\<dots> = 1000000000000001 / 1000000000000000 * X
      + 1000000000000001 / 10000000000000000000000000000 * M0"
    unfolding X_def by (simp add: algebra_simps)
  finally have pmhi: "pm \<le> 1000000000000001 / 1000000000000000 * X
      + 1000000000000001 / 10000000000000000000000000000 * M0" .
  have "(S1 - 1 / 10000000000000) * (999999999999999 / 1000000000000000 * M0) \<le> pm"
    unfolding pm_def using Pb(1) Mb(1) P0 M00 S1b M0b by (intro mult_mono) linarith+
  moreover have "(S1 - 1 / 10000000000000) * (999999999999999 / 1000000000000000 * M0)
      = 999999999999999 / 1000000000000000 * X
        - 999999999999999 / 10000000000000000000000000000 * M0"
    unfolding X_def by (simp add: field_simps)
  ultimately have pmlo: "999999999999999 / 1000000000000000 * X
        - 999999999999999 / 10000000000000000000000000000 * M0 \<le> pm" by simp
  have "1 / 2000 \<le> pm" using pmlo Xb M0b by linarith
  note Fb = binary64_scaled_bounds[OF this, folded F_def]
  have Fhi: "F < X + 1 / 5000" using Fb(2) pmhi Xb M0b by linarith
  have Flo: "X - 1 / 5000 < F" using Fb(1) pmlo Xb M0b by linarith
  have c: "calculateScore True (of_nat t) (of_nat d) (of_nat s) = \<lfloor>F\<rfloor>"
    unfolding calculateScore_split F_def pm_def P_def M_def mul64_def ..
  have sp: "spec_score (of_nat t) (of_nat d) (of_nat s) = k"
    unfolding spec_score_split k_def X_def S1_def M0_def by simp
  have Xn: "X = of_int (a * (10 + int s)) / 5000"
    unfolding X_def a(1) M0_def by simp
  have kX: "of_int k \<le> X" "X < of_int k + 1" unfolding k_def by linarith+
  have "of_int (a * (10 + int s)) < (of_int (5000 * (k + 1)) :: rat)"
    using kX(2) unfolding Xn by simp
  then have "a * (10 + int s) < 5000 * (k + 1)" by (simp only: of_int_less_iff)
  then have "a * (10 + int s) \<le> 5000 * (k + 1) - 1" by simp
  then have "(of_int (a * (10 + int s)) :: rat) \<le> of_int (5000 * (k + 1) - 1)"
    by (simp only: of_int_le_iff)
  then have Xg: "X \<le> of_int k + 1 - 1 / 5000" unfolding Xn by simp
  have "of_int (k - 1) \<le> F" using Flo kX(1) by simp
  then have lo: "k - 1 \<le> \<lfloor>F\<rfloor>" by (simp only: le_floor_iff)
  have "F < of_int (k + 1)" using Fhi Xg by simp
  then have "\<lfloor>F\<rfloor> < k + 1" by (simp only: floor_less_iff)
  then have hi: "\<lfloor>F\<rfloor> \<le> k" by simp
  from lo hi show ?thesis unfolding c sp by simp
qed

subsection \<open>The store and the engine\<close>

lemma Map_get_Map_set:
  "Map_get (Map_set k v m) k' = (if k' = k then Some v else Map_get m k')"
  by (induction m) (auto simp: Map_get_def)

lemma set_Array_sort: "set (Array_sort cmp xs) = set xs"
proof -
  have ins: "\<And>x ys. set (insertBy cmp x ys) = insert x (set ys)"
    subgoal for x ys by (induction ys) auto
    done
  show ?thesis unfolding Array_sort_def by (induction xs) (auto simp: ins)
qed

lemma length_Array_sort: "length (Array_sort cmp xs) = length xs"
proof -
  have ins: "\<And>x ys. length (insertBy cmp x ys) = Suc (length ys)"
    subgoal for x ys by (induction ys) auto
    done
  show ?thesis unfolding Array_sort_def by (induction xs) (auto simp: ins)
qed

lemma length_top:
  "length (Array_slice0 (min 5 (int (length xs))) xs) = min 5 (length xs)"
  by (auto simp: Array_slice0_def min_def)

lemma set_Array_slice0: "set (Array_slice0 n xs) \<subseteq> set xs"
  by (auto simp: Array_slice0_def dest: in_set_takeD)

lemma selectPairForGame_shortlist:
  "selectPairForGame db random criteria =
     (if availablePairs db criteria = [] then None
      else if 0 \<le> \<lfloor>random * of_nat (length (shortlist (availablePairs db criteria)))\<rfloor>
              \<and> nat \<lfloor>random * of_nat (length (shortlist (availablePairs db criteria)))\<rfloor>
                  < length (shortlist (availablePairs db criteria))
           then Some (fst (shortlist (availablePairs db criteria)
                  ! nat \<lfloor>random * of_nat (length (shortlist (availablePairs db criteria)))\<rfloor>))
           else None)"
  unfolding selectPairForGame_def shortlist_def Let_def Math_floor_def by simp

lemma length_shortlist: "length (shortlist cs) = min 5 (length cs)"
  unfolding shortlist_def Let_def
  using length_top[of "Array_sort (\<lambda>a b. snd b - snd a) (map (\<lambda>pair. (pair, pairWeight cs pair)) cs)"]
  by (simp only: length_Array_sort length_map)

lemma set_shortlist:
  assumes "x \<in> set (shortlist cs)"
  shows "fst x \<in> set cs"
proof -
  have "set (shortlist cs)
          \<subseteq> set (Array_sort (\<lambda>a b. snd b - snd a) (map (\<lambda>pair. (pair, pairWeight cs pair)) cs))"
    unfolding shortlist_def Let_def by (rule set_Array_slice0)
  with assms have "x \<in> set (map (\<lambda>pair. (pair, pairWeight cs pair)) cs)"
    unfolding set_Array_sort by (rule subsetD[rotated])
  then obtain pair where "pair \<in> set cs" and "x = (pair, pairWeight cs pair)"
    unfolding set_map by (rule imageE)
  then show ?thesis by simp
qed

lemma random_index:
  assumes "0 \<le> (random::rat)" "random < 1" "0 < n"
  shows "0 \<le> \<lfloor>random * of_nat n\<rfloor> \<and> nat \<lfloor>random * of_nat n\<rfloor> < n"
proof -
  have lo: "0 \<le> random * of_nat n" using assms by simp
  have "random * of_nat n < of_nat n" using assms by simp
  then have hi: "\<lfloor>random * of_nat n\<rfloor> < int n" by (simp add: floor_less_iff)
  have "0 \<le> \<lfloor>random * of_nat n\<rfloor>" using lo by simp
  with hi show ?thesis by linarith
qed

lemma selectPairForGame_None:
  assumes "0 \<le> random" "random < 1"
  shows "selectPairForGame db random criteria = None \<longleftrightarrow> availablePairs db criteria = []"
proof (cases "availablePairs db criteria = []")
  case True
  then show ?thesis by (simp add: selectPairForGame_shortlist)
next
  case False
  then have "0 < length (shortlist (availablePairs db criteria))"
    by (simp add: length_shortlist)
  from random_index[OF assms this] False show ?thesis
    by (simp only: selectPairForGame_shortlist if_False if_True simp_thms option.distinct)
qed

lemma selectPairForGame_Some:
  assumes "selectPairForGame db random criteria = Some p"
  shows "p \<in> set (availablePairs db criteria)"
proof -
  let ?top = "shortlist (availablePairs db criteria)"
  let ?i = "nat \<lfloor>random * of_nat (length ?top)\<rfloor>"
  from assms have "?i < length ?top \<and> p = fst (?top ! ?i)"
    unfolding selectPairForGame_shortlist by (simp split: if_splits)
  then show ?thesis using set_shortlist[of "?top ! ?i"] by simp
qed

lemma incrementUsageCount_frame [simp]:
  "gameSessions (incrementUsageCount db i) = gameSessions db"
  "gameRounds (incrementUsageCount db i) = gameRounds db"
  "imagePairs (incrementUsageCount db i) = imagePairs db"
  by (simp_all add: incrementUsageCount_def updateImage_usage_count_def split: option.splits)

lemma updateImagePair_frame [simp]:
  "gameSessions (fst (updateImagePair db i u)) = gameSessions db"
  "gameRounds (fst (updateImagePair db i u)) = gameRounds db"
  "images (fst (updateImagePair db i u)) = images db"
  by (simp_all add: updateImagePair_def Let_def split: option.splits)

lemma updatePairStats_frame [simp]:
  "gameSessions (updatePairStats db p c t) = gameSessions db"
  "gameRounds (updatePairStats db p c t) = gameRounds db"
  by (simp_all add: updatePairStats_def Let_def split: option.splits)

lemma createGameRound_frame [simp]:
  "gameSessions (createGameRound db r) = gameSessions db"
  "imagePairs (createGameRound db r) = imagePairs db"
  "images (createGameRound db r) = images db"
  by (simp_all add: createGameRound_def)

lemma updateGameSession_frame [simp]:
  "imagePairs (fst (updateGameSession db i u)) = imagePairs db"
  "images (fst (updateGameSession db i u)) = images db"
  "gameRounds (fst (updateGameSession db i u)) = gameRounds db"
  by (simp_all add: updateGameSession_def Let_def split: option.splits)

lemma getGameSession_updateGameSession:
  "getGameSession (fst (updateGameSession db i u)) j =
     (if j = i then map_option (\<lambda>s. applyGameSessionUpdates s u) (getGameSession db i)
      else getGameSession db j)"
  by (simp add: updateGameSession_def getGameSession_def Let_def Map_get_Map_set
      split: option.splits)

lemma snd_updateGameSession:
  "snd (updateGameSession db i u) = map_option (\<lambda>s. applyGameSessionUpdates s u) (getGameSession db i)"
  by (simp add: updateGameSession_def getGameSession_def Let_def split: option.splits)

lemma getImagePair_updatePairStats:
  "getImagePair (updatePairStats db p c t) q = None \<longleftrightarrow> getImagePair db q = None"
  by (simp add: updatePairStats_def updateImagePair_def getImagePair_def Let_def Map_get_Map_set
      split: option.splits)

lemma endGameSession_fst:
  "fst (endGameSession db now sid updates) = fst (updateGameSession db sid (finalUpdates now updates))"
  by (simp add: endGameSession_def finalUpdates_def Let_def updateGameSession_def getGameSession_def
      split: option.splits prod.splits)

lemma endGameSession_snd:
  assumes "getGameSession db sid = Some s"
  shows "\<exists>gr. snd (endGameSession db now sid updates) = Inr gr
          \<and> result_is_completed gr \<and> result_session_id gr = sid
          \<and> result_total_score gr = total_score (applyGameSessionUpdates s (finalUpdates now updates))
          \<and> result_rounds_completed gr = rounds_completed (applyGameSessionUpdates s (finalUpdates now updates))
          \<and> result_current_streak gr = current_streak (applyGameSessionUpdates s (finalUpdates now updates))"
  using assms
  by (simp add: endGameSession_def finalUpdates_def Let_def updateGameSession_def getGameSession_def
      split: option.splits prod.splits)

lemma endGameSession_missing:
  "getGameSession db sid = None \<Longrightarrow> endGameSession db now sid updates = (db, Inl GameSessionNotFound)"
  by (simp add: endGameSession_def)

lemma gameContinues_session:
  "getGameSession (fst (gameContinues db data r c pts ts rc cs)) j =
     (if j = data_session_id data
      then map_option (\<lambda>s. s\<lparr>total_score := ts, rounds_completed := rc, current_streak := cs\<rparr>)
             (getGameSession db (data_session_id data))
      else getGameSession db j)"
  by (simp add: gameContinues_def Let_def getGameSession_def updateGameSession_def Map_get_Map_set
      applyGameSessionUpdates_def split: option.splits)

lemma gameContinues_snd:
  "snd (gameContinues db data r c pts ts rc cs) =
     Inr \<lparr>res_round = r, res_isCorrect = c, res_pointsEarned = pts, res_gameResult = None\<rparr>"
  by (simp add: gameContinues_def Let_def)

lemma getImagePair_updateGameSession [simp]:
  "getImagePair (fst (updateGameSession db i u)) q = getImagePair db q"
  by (simp add: getImagePair_def)

lemma gameContinues_pairs:
  "getImagePair (fst (gameContinues db data r c pts ts rc cs)) q = None \<longleftrightarrow> getImagePair db q = None"
  by (simp add: gameContinues_def Let_def getImagePair_updatePairStats)

lemma roundEndsGame_session:
  "getGameSession (fst (roundEndsGame db now data r c pts ts rc cs)) j =
     (if j = data_session_id data
      then map_option (\<lambda>s. s\<lparr>total_score := ts, rounds_completed := rc, current_streak := cs,
                              is_completed := True, end_time := Some now\<rparr>)
             (getGameSession db (data_session_id data))
      else getGameSession db j)"
  by (simp add: roundEndsGame_def endGameSession_def finalUpdates_def Let_def getGameSession_def
      updateGameSession_def Map_get_Map_set applyGameSessionUpdates_def
      split: option.splits prod.splits sum.splits)

lemma roundEndsGame_snd:
  assumes "getGameSession db (data_session_id data) = Some s"
  shows "\<exists>gr. snd (roundEndsGame db now data r c pts ts rc cs) =
            Inr \<lparr>res_round = r, res_isCorrect = c, res_pointsEarned = pts, res_gameResult = Some gr\<rparr>
          \<and> result_is_completed gr \<and> result_session_id gr = data_session_id data
          \<and> result_total_score gr = ts \<and> result_rounds_completed gr = rc
          \<and> result_current_streak gr = cs"
  using assms
  by (simp add: roundEndsGame_def endGameSession_def finalUpdates_def Let_def getGameSession_def
      updateGameSession_def applyGameSessionUpdates_def
      split: option.splits prod.splits sum.splits)

lemma roundEndsGame_ended:
  assumes "snd (endGameSession db now (data_session_id data)
        (Some \<lparr>upd_total_score = Some ts, upd_rounds_completed = Some rc,
               upd_current_streak = Some cs, upd_is_completed = Some True,
               upd_end_time = Some now\<rparr>)) = Inr gr"
  shows "roundEndsGame db now data r c pts ts rc cs =
     (updatePairStats (fst (endGameSession db now (data_session_id data)
        (Some \<lparr>upd_total_score = Some ts, upd_rounds_completed = Some rc,
               upd_current_streak = Some cs, upd_is_completed = Some True,
               upd_end_time = Some now\<rparr>))) (data_pair_id data) c (data_response_time data),
      Inr \<lparr>res_round = r, res_isCorrect = c, res_pointsEarned = pts, res_gameResult = Some gr\<rparr>)"
proof -
  let ?E = "endGameSession db now (data_session_id data)
        (Some \<lparr>upd_total_score = Some ts, upd_rounds_completed = Some rc,
               upd_current_streak = Some cs, upd_is_completed = Some True,
               upd_end_time = Some now\<rparr>)"
  obtain d2 r2 where E: "?E = (d2, r2)" by (cases ?E)
  with assms have "r2 = Inr gr" by simp
  with E show ?thesis by (simp add: roundEndsGame_def)
qed

lemma roundEndsGame_pairs:
  "getImagePair (fst (roundEndsGame db now data r c pts ts rc cs)) q = None \<longleftrightarrow> getImagePair db q = None"
proof (cases "getGameSession db (data_session_id data)")
  case None
  then show ?thesis by (simp add: roundEndsGame_def endGameSession_def)
next
  case (Some s)
  from endGameSession_snd[OF Some] obtain gr where
    "snd (endGameSession db now (data_session_id data)
        (Some \<lparr>upd_total_score = Some ts, upd_rounds_completed = Some rc,
               upd_current_streak = Some cs, upd_is_completed = Some True,
               upd_end_time = Some now\<rparr>)) = Inr gr"
    by blast
  from roundEndsGame_ended[OF this] show ?thesis
    by (simp add: getImagePair_updatePairStats endGameSession_fst)
qed

lemma getGameSession_createGameRound [simp]:
  "getGameSession (createGameRound db r) j = getGameSession db j"
  by (simp add: getGameSession_def)

lemma getImagePair_createGameRound [simp]:
  "getImagePair (createGameRound db r) q = getImagePair db q"
  by (simp add: getImagePair_def)

lemma submit_missing:
  "getGameSession db (data_session_id data) = None \<Longrightarrow>
   submitPlayerChoice db rid now data = (db, Inl GameSessionNotFound)"
  by (simp add: submitPlayerChoice_def)

lemma submit_completed:
  "getGameSession db (data_session_id data) = Some s \<Longrightarrow> is_completed s \<Longrightarrow>
   submitPlayerChoice db rid now data = (db, Inl GameSessionAlreadyCompleted)"
  by (simp add: submitPlayerChoice_def)

lemma submit_no_pair:
  "getGameSession db (data_session_id data) = Some s \<Longrightarrow> \<not> is_completed s \<Longrightarrow>
   getImagePair db (data_pair_id data) = None \<Longrightarrow>
   submitPlayerChoice db rid now data = (db, Inl ImagePairNotFound)"
  by (simp add: submitPlayerChoice_def getImagePairById_def)

lemma submit_session:
  assumes "getGameSession db (data_session_id data) = Some s" "\<not> is_completed s"
    "getImagePair db (data_pair_id data) = Some p"
  shows "getGameSession (fst (submitPlayerChoice db rid now data)) j =
     (if j = data_session_id data
      then Some (s\<lparr>total_score := total_score s + roundPoints s p data,
                   rounds_completed := rounds_completed s + 1,
                   current_streak := (if game_mode s = streak \<and> data_player_choice data = choice_ai
                                      then current_streak s + 1 else current_streak s),
                   is_completed := roundCompletes s (data_player_choice data = choice_ai),
                   end_time := (if roundCompletes s (data_player_choice data = choice_ai)
                                then Some now else end_time s)\<rparr>)
      else getGameSession db j)"
proof (cases "game_mode s")
  case daily
  with assms show ?thesis
    by (simp add: submitPlayerChoice_def getImagePairById_def Let_def roundPoints_def
        roundCompletes_def gameContinues_session roundEndsGame_session)
next
  case streak
  with assms show ?thesis
    by (simp add: submitPlayerChoice_def getImagePairById_def Let_def roundPoints_def
        roundCompletes_def gameContinues_session roundEndsGame_session)
qed

lemma submit_result:
  assumes "getGameSession db (data_session_id data) = Some s" "\<not> is_completed s"
    "getImagePair db (data_pair_id data) = Some p"
  shows "\<exists>res. snd (submitPlayerChoice db rid now data) = Inr res
          \<and> res_isCorrect res = (data_player_choice data = choice_ai)
          \<and> res_pointsEarned res = roundPoints s p data
          \<and> points_earned (res_round res) = roundPoints s p data
          \<and> (case res_gameResult res of
                None \<Rightarrow> \<not> roundCompletes s (data_player_choice data = choice_ai)
              | Some gr \<Rightarrow> roundCompletes s (data_player_choice data = choice_ai)
                          \<and> result_is_completed gr
                          \<and> result_session_id gr = data_session_id data
                          \<and> result_total_score gr = total_score s + roundPoints s p data
                          \<and> result_rounds_completed gr = rounds_completed s + 1
                          \<and> result_current_streak gr = current_streak s)"
proof -
  have found: "getGameSession (createGameRound db r) (data_session_id data) = Some s" for r
    using assms(1) by simp
  show ?thesis
  proof (cases "roundCompletes s (data_player_choice data = choice_ai)")
    case True
    let ?r = "\<lparr>round_id = rid, round_session_id = data_session_id data,
               round_pair_id = data_pair_id data, player_choice = data_player_choice data,
               correct_answer = choice_ai, is_correct = (data_player_choice data = choice_ai),
               response_time = data_response_time data, points_earned = roundPoints s p data,
               round_number = length (getGameRoundsBySession db (data_session_id data)) + 1,
               timestamp = now\<rparr>"
    from roundEndsGame_snd[OF found, of ?r now ?r "data_player_choice data = choice_ai"
        "roundPoints s p data" "total_score s + roundPoints s p data" "rounds_completed s + 1"
        "current_streak s"]
    obtain gr where gr: "snd (roundEndsGame (createGameRound db ?r) now data ?r
        (data_player_choice data = choice_ai) (roundPoints s p data)
        (total_score s + roundPoints s p data) (rounds_completed s + 1) (current_streak s)) =
        Inr \<lparr>res_round = ?r, res_isCorrect = (data_player_choice data = choice_ai),
             res_pointsEarned = roundPoints s p data, res_gameResult = Some gr\<rparr>"
      and "result_is_completed gr" "result_session_id gr = data_session_id data"
      "result_total_score gr = total_score s + roundPoints s p data"
      "result_rounds_completed gr = rounds_completed s + 1"
      "result_current_streak gr = current_streak s"
      by blast
    with True assms show ?thesis
      by (cases "game_mode s")
         (simp_all add: submitPlayerChoice_def getImagePairById_def Let_def roundPoints_def
            roundCompletes_def)
  next
    case False
    with assms show ?thesis
      by (cases "game_mode s")
         (simp_all add: submitPlayerChoice_def getImagePairById_def Let_def roundPoints_def
            roundCompletes_def gameContinues_snd)
  qed
qed

lemma submit_pairs:
  "getImagePair (fst (submitPlayerChoice db rid now data)) q = None \<longleftrightarrow> getImagePair db q = None"
proof (cases "getGameSession db (data_session_id data)")
  case None
  then show ?thesis by (simp add: submit_missing)
next
  case (Some s)
  show ?thesis
  proof (cases "is_completed s")
    case True
    with Some show ?thesis by (simp add: submit_completed)
  next
    case False
    show ?thesis
    proof (cases "getImagePair db (data_pair_id data)")
      case None
      with Some False show ?thesis by (simp add: submit_no_pair)
    next
      case (Some p)
      with \<open>getGameSession db (data_session_id data) = Some s\<close> False show ?thesis
        by (cases "game_mode s")
           (simp_all add: submitPlayerChoice_def getImagePairById_def Let_def
              gameContinues_pairs roundEndsGame_pairs)
    qed
  qed
qed

lemma submit_other_session:
  assumes "data_session_id data \<noteq> j"
  shows "getGameSession (fst (submitPlayerChoice db rid now data)) j = getGameSession db j"
proof (cases "getGameSession db (data_session_id data)")
  case None
  then show ?thesis by (simp add: submit_missing)
next
  case (Some s)
  show ?thesis
  proof (cases "is_completed s")
    case True
    with Some show ?thesis by (simp add: submit_completed)
  next
    case False
    show ?thesis
    proof (cases "getImagePair db (data_pair_id data)")
      case None
      with Some False show ?thesis by (simp add: submit_no_pair)
    next
      case (Some p)
      from submit_session[OF \<open>getGameSession db (data_session_id data) = Some s\<close> False Some]
      show ?thesis using assms by simp
    qed
  qed
qed

lemma start_session:
  "getGameSession (fst (startGameSession db new_id now today data)) j =
     (if snd (startGameSession db new_id now today data) = Inl DailyChallengeAlreadyCompleted
      then getGameSession db j
      else if j = new_id then
        Some \<lparr>session_id = new_id, player_id = data_player_id data,
              game_mode = data_game_mode data, start_time = now, end_time = None,
              total_score = 0, rounds_completed = 0, current_streak = 0, is_completed = False,
              daily_challenge_date = (if data_game_mode data = daily then Some today else None)\<rparr>
      else getGameSession db j)"
  by (simp add: startGameSession_def Let_def createGameSession_def getGameSession_def
      Map_get_Map_set)

lemma end_session:
  "getGameSession (fst (endGameSession db now i updates)) j =
     (if j = i then map_option (\<lambda>s. applyGameSessionUpdates s (finalUpdates now updates))
                      (getGameSession db i)
      else getGameSession db j)"
  by (simp add: endGameSession_fst getGameSession_updateGameSession)

lemma is_completed_final:
  "is_completed (applyGameSessionUpdates s (finalUpdates now updates))"
  by (simp add: applyGameSessionUpdates_def finalUpdates_def split: option.splits)

lemma completed_perform:
  assumes "completed_in db sessionId" "starts_other sessionId op"
  shows "completed_in (perform db op) sessionId"
proof (cases op)
  case (Start new_id now today data)
  with assms show ?thesis
    by (simp add: completed_in_def start_session)
next
  case (Submit new_id now data)
  show ?thesis
  proof (cases "data_session_id data = sessionId")
    case True
    with assms(1) obtain s where "getGameSession db (data_session_id data) = Some s" "is_completed s"
      by (auto simp: completed_in_def split: option.splits)
    then have "submitPlayerChoice db new_id now data = (db, Inl GameSessionAlreadyCompleted)"
      by (rule submit_completed)
    with assms(1) Submit show ?thesis by simp
  next
    case False
    with assms(1) Submit show ?thesis
      by (simp add: completed_in_def submit_other_session)
  qed
next
  case (End now i updates)
  with assms(1) show ?thesis
    by (cases "i = sessionId")
       (simp_all add: completed_in_def end_session is_completed_final split: option.splits)
qed

lemma completed_run:
  assumes "completed_in db sessionId" "\<forall>op \<in> set ops. starts_other sessionId op"
  shows "completed_in (run db ops) sessionId"
  using assms unfolding run_def
  by (induction ops arbitrary: db) (simp_all add: completed_perform)

lemma submit_completed_in:
  assumes "completed_in db (data_session_id data)"
  shows "submitPlayerChoice db new_id now data = (db, Inl GameSessionAlreadyCompleted)"
proof -
  from assms obtain s where "getGameSession db (data_session_id data) = Some s" "is_completed s"
    by (auto simp: completed_in_def split: option.splits)
  then show ?thesis by (rule submit_completed)
qed

lemma example_db_facts:
  "getGameSession example_db ''s1'' = Some example_streak_session"
  "getGameSession example_db ''s2'' = Some example_daily_session"
  "getImagePair example_db ''p1'' = Some example_pair"
  by (simp_all add: example_db_def getGameSession_def getImagePair_def Map_get_def)

lemma daily_round:
  assumes "getGameSession db (data_session_id d) = Some s" "game_mode s = daily"
    "\<not> is_completed s" "getImagePair db (data_pair_id d) \<noteq> None"
  shows "\<exists>db' r s'. submitPlayerChoice db i t d = (db', Inr r)
          \<and> getGameSession db' (data_session_id d) = Some s'
          \<and> game_mode s' = daily
          \<and> rounds_completed s' = rounds_completed s + 1
          \<and> current_streak s' = current_streak s
          \<and> is_completed s' = (rounds_completed s + 1 \<ge> 3)
          \<and> (if rounds_completed s + 1 \<ge> 3
              then \<exists>gr. res_gameResult r = Some gr \<and> result_is_completed gr
                     \<and> result_rounds_completed gr = rounds_completed s + 1
              else res_gameResult r = None)
          \<and> (\<forall>q. getImagePair db' q = None \<longleftrightarrow> getImagePair db q = None)"
proof -
  from assms(4) obtain p where p: "getImagePair db (data_pair_id d) = Some p" by blast
  have ends: "roundCompletes s (data_player_choice d = choice_ai) = (rounds_completed s + 1 \<ge> 3)"
    using assms(2) by (simp add: roundCompletes_def)
  from submit_result[OF assms(1,3) p, of i t] obtain r where
    r: "snd (submitPlayerChoice db i t d) = Inr r"
      "case res_gameResult r of
         None \<Rightarrow> \<not> roundCompletes s (data_player_choice d = choice_ai)
       | Some gr \<Rightarrow> roundCompletes s (data_player_choice d = choice_ai) \<and> result_is_completed gr
            \<and> result_session_id gr = data_session_id d
            \<and> result_total_score gr = total_score s + roundPoints s p d
            \<and> result_rounds_completed gr = rounds_completed s + 1
            \<and> result_current_streak gr = current_streak s"
    by blast
  have gr: "if rounds_completed s + 1 \<ge> 3
            then \<exists>gr. res_gameResult r = Some gr \<and> result_is_completed gr
                   \<and> result_rounds_completed gr = rounds_completed s + 1
            else res_gameResult r = None"
    using r(2) ends by (cases "res_gameResult r") simp_all
  define s' where "s' = s\<lparr>total_score := total_score s + roundPoints s p d,
       rounds_completed := rounds_completed s + 1,
       current_streak := (if game_mode s = streak \<and> data_player_choice d = choice_ai
                          then current_streak s + 1 else current_streak s),
       is_completed := roundCompletes s (data_player_choice d = choice_ai),
       end_time := (if roundCompletes s (data_player_choice d = choice_ai)
                    then Some t else end_time s)\<rparr>"
  have sess: "getGameSession (fst (submitPlayerChoice db i t d)) (data_session_id d) = Some s'"
    using submit_session[OF assms(1,3) p, of i t "data_session_id d"] by (simp add: s'_def)
  have props: "game_mode s' = daily" "rounds_completed s' = rounds_completed s + 1"
    "current_streak s' = current_streak s" "is_completed s' = (rounds_completed s + 1 \<ge> 3)"
    using assms(2) ends by (simp_all add: s'_def)
  have "submitPlayerChoice db i t d = (fst (submitPlayerChoice db i t d), Inr r)"
    using r(1) by (simp add: prod_eq_iff)
  with sess props gr submit_pairs[of db i t d] show ?thesis by blast
qed

lemma set_Map_values_Map_set:
  "set (Map_values (Map_set k v m)) \<subseteq> insert v (set (Map_values m))"
  by (induction m) (auto simp: Map_values_def)

lemma imagePairs_updatePairStats:
  "imagePairs (updatePairStats db pairId isCorrect t) =
     (case getImagePair db pairId of
        None \<Rightarrow> imagePairs db
      | Some pair \<Rightarrow> Map_set pairId (recordOutcome pair isCorrect t) (imagePairs db))"
  by (simp add: updatePairStats_def updateImagePair_def getImagePair_def Let_def
      applyImagePairUpdates_def recordOutcome_def split: option.splits)

lemma recordOutcome_recorded:
  "correct_guesses p \<le> total_attempts p \<Longrightarrow> pair_stats_recorded (recordOutcome p c t)"
  by (simp add: pair_stats_recorded_def recordOutcome_def storedSuccessRate_def)

lemma getImagePair_after_updatePairStats:
  "getImagePair (updatePairStats db pairId c t) q =
     (if q = pairId then map_option (\<lambda>p. recordOutcome p c t) (getImagePair db pairId)
      else getImagePair db q)"
  by (simp add: getImagePair_def imagePairs_updatePairStats Map_get_Map_set split: option.splits)

lemma getImagePair_foldl_updatePairStats:
  assumes "getImagePair db pairId = Some p"
  shows "getImagePair (foldl (\<lambda>db c. updatePairStats db pairId c t) db cs) pairId
           = Some (foldl (\<lambda>p c. recordOutcome p c t) p cs)"
  using assms
  by (induction cs arbitrary: db p) (simp_all add: getImagePair_after_updatePairStats)

lemma total_attempts_foldl_recordOutcome:
  "total_attempts (foldl (\<lambda>p c. recordOutcome p c t) p cs) = total_attempts p + length cs"
  by (induction cs arbitrary: p) (simp_all add: recordOutcome_def)

lemma correct_guesses_foldl_recordOutcome:
  "correct_guesses (foldl (\<lambda>p c. recordOutcome p c t) p cs)
     = correct_guesses p + length (filter (\<lambda>c. c) cs)"
  by (induction cs arbitrary: p) (simp_all add: recordOutcome_def)

lemma success_rate_recordOutcome:
  "success_rate (recordOutcome p c t)
     = storedSuccessRate (correct_guesses (recordOutcome p c t))
         (total_attempts (recordOutcome p c t))"
  by (simp add: recordOutcome_def storedSuccessRate_def)

lemma attempts_db_pair:
  "\<exists>p. getImagePair attempts_db ''p1'' = Some p
       \<and> total_attempts p = 159 \<and> correct_guesses p = 22
       \<and> success_rate p = storedSuccessRate 22 159"
proof -
  let ?cs = "replicate 22 True @ replicate 136 False"
  let ?q = "foldl (\<lambda>p c. recordOutcome p c 1200) example_pair ?cs"
  have "replicate 136 False @ [False] = replicate (Suc 136) False"
    by (simp only: replicate_append_same replicate_Suc)
  then have l: "replicate 22 True @ replicate 137 False = ?cs @ [False]" by simp
  have q: "total_attempts ?q = 158" "correct_guesses ?q = 22"
    by (simp_all add: total_attempts_foldl_recordOutcome correct_guesses_foldl_recordOutcome
        example_pair_def)
  have "getImagePair attempts_db ''p1''
      = Some (foldl (\<lambda>p c. recordOutcome p c 1200) example_pair (?cs @ [False]))"
    unfolding attempts_db_def l
    by (rule getImagePair_foldl_updatePairStats[OF example_db_facts(3)])
  then have "getImagePair attempts_db ''p1'' = Some (recordOutcome ?q False 1200)"
    by simp
  moreover have "total_attempts (recordOutcome ?q False 1200) = 159"
    "correct_guesses (recordOutcome ?q False 1200) = 22"
    using q by (simp_all add: recordOutcome_def)
  moreover from this have "success_rate (recordOutcome ?q False 1200) = storedSuccessRate 22 159"
    by (simp only: success_rate_recordOutcome)
  ultimately show ?thesis by blast
qed

lemma updatePairStats_keeps_recorded:
  assumes "\<forall>q \<in> set (Map_values (imagePairs db)). pair_stats_recorded q"
  shows "\<forall>q \<in> set (Map_values (imagePairs (updatePairStats db pairId c t))). pair_stats_recorded q"
proof (cases "getImagePair db pairId")
  case None
  with assms show ?thesis by (simp add: imagePairs_updatePairStats)
next
  case (Some p)
  then have "p \<in> set (Map_values (imagePairs db))"
    by (auto simp: getImagePair_def Map_get_def Map_values_def dest: map_of_SomeD intro: rev_image_eqI)
  with assms have "correct_guesses p \<le> total_attempts p"
    by (simp add: pair_stats_recorded_def)
  then have "pair_stats_recorded (recordOutcome p c t)" by (rule recordOutcome_recorded)
  with assms Some set_Map_values_Map_set[of pairId "recordOutcome p c t" "imagePairs db"]
  show ?thesis by (auto simp: imagePairs_updatePairStats)
qed

lemma createImagePair_created:
  assumes "snd (createImagePair db new_id now data) = Inr created"
  shows "total_attempts created = 0 \<and> correct_guesses created = 0 \<and> success_rate created = 0
         \<and> imagePairs (fst (createImagePair db new_id now data))
             = Map_set (pair_id created) created (imagePairs db)"
  using assms
  by (auto simp: createImagePair_def Let_def db_createImagePair_def
      split: option.splits if_splits prod.splits)

lemma createImagePair_failed:
  assumes "snd (createImagePair db new_id now data) = Inl e"
  shows "fst (createImagePair db new_id now data) = db"
  using assms
  by (auto simp: createImagePair_def Let_def split: option.splits if_splits prod.splits)

lemma imagePairs_frames [simp]:
  "imagePairs (fst (startGameSession db new_id now today sdata)) = imagePairs db"
  "imagePairs (fst (endGameSession db now i updates)) = imagePairs db"
  by (simp_all add: startGameSession_def Let_def createGameSession_def endGameSession_fst)

lemma imagePairs_gameContinues:
  "imagePairs (fst (gameContinues db data r c pts ts rc cs))
     = imagePairs (updatePairStats db (data_pair_id data) c (data_response_time data))"
  by (simp add: gameContinues_def Let_def imagePairs_updatePairStats split: option.splits)

lemma imagePairs_roundEndsGame:
  "imagePairs (fst (roundEndsGame db now data r c pts ts rc cs)) = imagePairs db
   \<or> imagePairs (fst (roundEndsGame db now data r c pts ts rc cs))
       = imagePairs (updatePairStats db (data_pair_id data) c (data_response_time data))"
proof (cases "getGameSession db (data_session_id data)")
  case None
  then show ?thesis by (simp add: roundEndsGame_def endGameSession_def)
next
  case (Some s)
  from endGameSession_snd[OF Some] obtain gr where
    "snd (endGameSession db now (data_session_id data)
        (Some \<lparr>upd_total_score = Some ts, upd_rounds_completed = Some rc,
               upd_current_streak = Some cs, upd_is_completed = Some True,
               upd_end_time = Some now\<rparr>)) = Inr gr"
    by blast
  from roundEndsGame_ended[OF this] show ?thesis
    by (simp add: imagePairs_updatePairStats endGameSession_fst split: option.splits)
qed

lemma imagePairs_updatePairStats_createGameRound:
  "imagePairs (updatePairStats (createGameRound db r) pairId c t)
     = imagePairs (updatePairStats db pairId c t)"
  by (simp add: imagePairs_updatePairStats split: option.splits)

lemma submit_fst_cases:
  "fst (submitPlayerChoice db i t d) = db
   \<or> (\<exists>r pts ts rc cs. fst (submitPlayerChoice db i t d)
          = fst (gameContinues (createGameRound db r) d r (data_player_choice d = choice_ai)
                   pts ts rc cs))
   \<or> (\<exists>r pts ts rc cs. fst (submitPlayerChoice db i t d)
          = fst (roundEndsGame (createGameRound db r) t d r (data_player_choice d = choice_ai)
                   pts ts rc cs))"
proof (cases "getGameSession db (data_session_id d)")
  case None
  then show ?thesis by (simp add: submit_missing)
next
  case (Some s)
  show ?thesis
  proof (cases "is_completed s")
    case True
    with Some show ?thesis by (simp add: submit_completed)
  next
    case False
    show ?thesis
    proof (cases "getImagePair db (data_pair_id d)")
      case None
      with Some False show ?thesis by (simp add: submit_no_pair)
    next
      case (Some p)
      have "submitPlayerChoice db i t d =
          (let c = (data_player_choice d = choice_ai);
               pts = roundPoints s p d;
               r = \<lparr>round_id = i, round_session_id = data_session_id d,
                    round_pair_id = data_pair_id d, player_choice = data_player_choice d,
                    correct_answer = choice_ai, is_correct = c,
                    response_time = data_response_time d, points_earned = pts,
                    round_number = length (getGameRoundsBySession db (data_session_id d)) + 1,
                    timestamp = t\<rparr>
           in case game_mode s of
                streak \<Rightarrow>
                  if c then gameContinues (createGameRound db r) d r c pts
                              (total_score s + pts) (rounds_completed s + 1) (current_streak s + 1)
                  else roundEndsGame (createGameRound db r) t d r c pts
                              (total_score s + pts) (rounds_completed s + 1) (current_streak s)
              | daily \<Rightarrow>
                  if rounds_completed s + 1 \<ge> 3
                  then roundEndsGame (createGameRound db r) t d r c pts
                              (total_score s + pts) (rounds_completed s + 1) (current_streak s)
                  else gameContinues (createGameRound db r) d r c pts
                              (total_score s + pts) (rounds_completed s + 1) (current_streak s))"
        using \<open>getGameSession db (data_session_id d) = Some s\<close> False Some
        unfolding submitPlayerChoice_def getImagePairById_def roundPoints_def Let_def
        by simp
      then show ?thesis
        unfolding Let_def by (cases "game_mode s") (simp_all, blast+)
    qed
  qed
qed

lemma imagePairs_submit:
  "imagePairs (fst (submitPlayerChoice db i t d)) = imagePairs db
   \<or> imagePairs (fst (submitPlayerChoice db i t d))
       = imagePairs (updatePairStats db (data_pair_id d) (data_player_choice d = choice_ai)
                       (data_response_time d))"
  using submit_fst_cases[of db i t d]
proof (elim disjE exE)
  assume "fst (submitPlayerChoice db i t d) = db"
  then show ?thesis by simp
next
  fix r pts ts rc cs
  assume "fst (submitPlayerChoice db i t d)
          = fst (gameContinues (createGameRound db r) d r (data_player_choice d = choice_ai)
                   pts ts rc cs)"
  then show ?thesis
    by (simp only: imagePairs_gameContinues imagePairs_updatePairStats_createGameRound simp_thms)
next
  fix r pts ts rc cs
  assume "fst (submitPlayerChoice db i t d)
          = fst (roundEndsGame (createGameRound db r) t d r (data_player_choice d = choice_ai)
                   pts ts rc cs)"
  with imagePairs_roundEndsGame[of "createGameRound db r" t d r
      "data_player_choice d = choice_ai" pts ts rc cs]
  show ?thesis
    by (simp only: imagePairs_updatePairStats_createGameRound createGameRound_frame)
qed

lemma perform_keeps_recorded:
  assumes "\<forall>q \<in> set (Map_values (imagePairs db)). pair_stats_recorded q"
  shows "\<forall>q \<in> set (Map_values (imagePairs (perform db op))). pair_stats_recorded q"
proof (cases op)
  case (Start new_id now today sdata)
  with assms show ?thesis by simp
next
  case (Submit i t d)
  from imagePairs_submit[of db i t d] assms
    updatePairStats_keeps_recorded[OF assms, of "data_pair_id d"
      "data_player_choice d = choice_ai" "data_response_time d"]
  show ?thesis unfolding Submit perform.simps by metis
next
  case (End now i updates)
  with assms show ?thesis by simp
qed

lemma run_keeps_recorded:
  assumes "\<forall>q \<in> set (Map_values (imagePairs db)). pair_stats_recorded q"
  shows "\<forall>q \<in> set (Map_values (imagePairs (run db ops))). pair_stats_recorded q"
  using assms unfolding run_def
proof (induction ops arbitrary: db)
  case Nil
  then show ?case by simp
next
  case (Cons op ops)
  from perform_keeps_recorded[OF Cons.prems] have
    "\<forall>q \<in> set (Map_values (imagePairs (perform db op))). pair_stats_recorded q" .
  from Cons.IH[OF this] show ?case by simp
qed

lemma set_availablePairs:
  "set (availablePairs db criteria)
     = {p \<in> set (Map_values (imagePairs db)). matchesCriteria criteria p}"
  by (auto simp: availablePairs_def db_getAllImagePairs_def Let_def matchesCriteria_def
      split: option.splits)

lemma selectPairForGame_single:
  assumes "availablePairs db criteria = [p]" "0 \<le> random" "random < 1"
  shows "selectPairForGame db random criteria = Some p"
proof -
  from selectPairForGame_None[OF assms(2,3), of db criteria] assms(1)
  obtain q where q: "selectPairForGame db random criteria = Some q" by auto
  from selectPairForGame_Some[OF q] assms(1) have "q = p" by simp
  with q show ?thesis by simp
qed

lemma selection_db_pairs:
  "Map_values (imagePairs selection_db) = [example_pair, easy_pair]"
  by (simp add: selection_db_def Map_values_def)

lemma rank_example:
  "rankSessions [finished_session ''sA'' ''A'' 300, finished_session ''sB'' ''B'' 500,
                 finished_session ''sC'' ''C'' 500, finished_session ''sD'' ''D'' 100] None 3
     = [\<lparr>rank = 1, row_player_id = ''B'', row_best_score = 500, row_best_streak = 4,
          row_total_games = 1, row_last_played = 10\<rparr>,
        \<lparr>rank = 2, row_player_id = ''C'', row_best_score = 500, row_best_streak = 4,
          row_total_games = 1, row_last_played = 10\<rparr>,
        \<lparr>rank = 3, row_player_id = ''A'', row_best_score = 300, row_best_streak = 4,
          row_total_games = 1, row_last_played = 10\<rparr>]"
  by (simp add: rankSessions_def Let_def finished_session_def leaderboardStep_def Map_get_def
      Map_values_def Array_sort_def Array_slice0_def upt_rec)

lemma run_Cons: "run db (op # ops) = run (perform db op) ops"
  by (simp add: run_def)

lemma run_Nil: "run db [] = db"
  by (simp add: run_def)

lemma start_not_rejected:
  "getTodaysDailySession db today playerId = None"
  by (simp add: getTodaysDailySession_def Object_values_def findTodaysDailySession_def)

section \<open>The score calculator\<close>




section \<open>The points of a round\<close>

text \<open>
  C2, as amended. The points of a submitted round are those of the engine's own
  \<open>calculatePoints\<close>, applied to the round's correctness, its response time, the
  pair's difficulty, the streak before the update and the game mode: 0 for an incorrect
  answer, otherwise \<open>Math.round ((100 + 100 * (d * 0.2) + timeBonus) * m)\<close> with
  \<open>timeBonus = max 0 ((30 - t / 1000) * 2)\<close>, \<open>m = 1 + streak * 0.1\<close> in streak
  mode and \<open>m = 1\<close> in daily mode, every operation being the binary64 operation of the
  source (so a correct answer after 2500 ms at difficulty 1 with a streak of 13 earns
  402 points, the binary64 product \<open>175 * 2.3\<close> being \<open>402.49999999999994\<close>). The
  round record carries the same points. For an incorrect answer this is the score
  calculator's output, 0. As stated (the points equal the score calculator's output) the
  property fails: a correct instant answer at difficulty 5 with no streak earns 260
  points, and the score calculator gives 250.
\<close>

theorem submit_points_are_calculatePoints:
  assumes "getGameSession db (data_session_id data) = Some s"
    and "\<not> is_completed s"
    and "getImagePair db (data_pair_id data) = Some p"
  shows "(\<exists>res. snd (submitPlayerChoice db new_id now data) = Inr res
            \<and> res_pointsEarned res =
                calculatePoints (data_player_choice data = choice_ai) (data_response_time data)
                  (of_nat (difficulty_level p)) (of_nat (current_streak s)) (game_mode s)
            \<and> points_earned (res_round res) = res_pointsEarned res)
       \<and> calculatePoints c t d k m =
           (if c then Math_round
                        (mul64 (add64 (add64 100 (mul64 100 (mul64 d (binary64 (2 / 10)))))
                                  (max 0 (mul64 (sub64 30 (div64 t 1000)) 2)))
                           (if m = streak then add64 1 (mul64 k (binary64 (1 / 10))) else 1))
            else 0)
       \<and> calculatePoints False t d k m = calculateScore False t d k
       \<and> calculatePoints True 2500 1 13 streak = 402"
proof -
  from submit_result[OF assms, of new_id now] obtain res where
    "snd (submitPlayerChoice db new_id now data) = Inr res"
    "res_pointsEarned res = roundPoints s p data"
    "points_earned (res_round res) = roundPoints s p data"
    by blast
  then have "\<exists>res. snd (submitPlayerChoice db new_id now data) = Inr res
            \<and> res_pointsEarned res =
                calculatePoints (data_player_choice data = choice_ai) (data_response_time data)
                  (of_nat (difficulty_level p)) (of_nat (current_streak s)) (game_mode s)
            \<and> points_earned (res_round res) = res_pointsEarned res"
    by (simp add: roundPoints_def)
  moreover have "calculatePoints False t d k m = calculateScore False t d k"
    by (simp add: calculatePoints_def calculateScore_def)
  moreover have "calculatePoints c t d k m =
           (if c then Math_round
                        (mul64 (add64 (add64 100 (mul64 100 (mul64 d (binary64 (2 / 10)))))
                                  (max 0 (mul64 (sub64 30 (div64 t 1000)) 2)))
                           (if m = streak then add64 1 (mul64 k (binary64 (1 / 10))) else 1))
            else 0)"
    by (simp add: calculatePoints_def Let_def)
  ultimately show ?thesis using calculatePoints_streak_13 by blast
qed

theorem submit_points_are_calculatePoints_witness:
  "getGameSession example_db (data_session_id (example_choice ''s1'' choice_ai 0))
     = Some example_streak_session
   \<and> \<not> is_completed example_streak_session
   \<and> getImagePair example_db (data_pair_id (example_choice ''s1'' choice_ai 0)) = Some example_pair
   \<and> (\<exists>res. snd (submitPlayerChoice example_db ''round1'' 5 (example_choice ''s1'' choice_ai 0))
              = Inr res
            \<and> res_pointsEarned res = 260 \<and> points_earned (res_round res) = 260)"
proof -
  let ?data = "example_choice ''s1'' choice_ai 0"
  have h1: "getGameSession example_db (data_session_id ?data) = Some example_streak_session"
    by (simp add: example_choice_def example_db_facts)
  have h2: "\<not> is_completed example_streak_session"
    by (simp add: example_streak_session_def)
  have h3: "getImagePair example_db (data_pair_id ?data) = Some example_pair"
    by (simp add: example_choice_def example_db_facts)
  have pts: "calculatePoints (data_player_choice ?data = choice_ai) (data_response_time ?data)
       (of_nat (difficulty_level example_pair)) (of_nat (current_streak example_streak_session))
       (game_mode example_streak_session) = 260"
    by (simp add: calculatePoints_instant example_choice_def example_pair_def
        example_streak_session_def)
  from submit_points_are_calculatePoints[OF h1 h2 h3, THEN conjunct1, of "''round1''" 5] pts
  have "\<exists>res. snd (submitPlayerChoice example_db ''round1'' 5 ?data) = Inr res
            \<and> res_pointsEarned res = 260 \<and> points_earned (res_round res) = 260"
    by auto
  with h1 h2 h3 show ?thesis by blast
qed

theorem submit_points_counterexample:
  "snd (submitPlayerChoice example_db ''round1'' 5 (example_choice ''s1'' choice_ai 0))
     = Inr \<lparr>res_round =
               \<lparr>round_id = ''round1'', round_session_id = ''s1'', round_pair_id = ''p1'',
                player_choice = choice_ai, correct_answer = choice_ai, is_correct = True,
                response_time = 0, points_earned = 260, round_number = 1, timestamp = 5\<rparr>,
             res_isCorrect = True, res_pointsEarned = 260, res_gameResult = None\<rparr>
   \<and> calculateScore True 0 (of_nat (difficulty_level example_pair))
        (of_nat (current_streak example_streak_session)) = 250"
proof -
  have rounds: "getGameRoundsBySession example_db ''s1'' = []"
    by (simp add: getGameRoundsBySession_def example_db_def Map_values_def Array_sort_def)
  have "snd (submitPlayerChoice example_db ''round1'' 5 (example_choice ''s1'' choice_ai 0))
     = Inr \<lparr>res_round =
               \<lparr>round_id = ''round1'', round_session_id = ''s1'', round_pair_id = ''p1'',
                player_choice = choice_ai, correct_answer = choice_ai, is_correct = True,
                response_time = 0, points_earned = 260, round_number = 1, timestamp = 5\<rparr>,
             res_isCorrect = True, res_pointsEarned = 260, res_gameResult = None\<rparr>"
    by (simp add: submitPlayerChoice_def example_db_facts example_choice_def getImagePairById_def
        Let_def gameContinues_snd example_streak_session_def example_pair_def
        calculatePoints_instant rounds)
  moreover have "calculateScore True 0 (of_nat (difficulty_level example_pair))
        (of_nat (current_streak example_streak_session)) = 250"
    by (simp add: calculateScore_fixtures example_pair_def example_streak_session_def)
  ultimately show ?thesis by simp
qed

section \<open>Completion of a session\<close>

text \<open>
  C3. In a streak-mode session that is in progress, submitting one incorrect round for a
  pair that exists completes the session at once: the call returns a game result, the
  stored session has \<open>is_completed\<close> set, and every later \<open>submitPlayerChoice\<close> on
  that session, after any further operations of the engine, fails with
  \<open>GameSessionAlreadyCompleted\<close> and leaves the store as it is.
\<close>

theorem streak_miss_completes_session:
  assumes "getGameSession db (data_session_id data) = Some s"
    and "game_mode s = streak"
    and "\<not> is_completed s"
    and "getImagePair db (data_pair_id data) = Some p"
    and "data_player_choice data \<noteq> choice_ai"
    and "\<forall>op \<in> set ops. starts_other (data_session_id data) op"
    and "data_session_id later = data_session_id data"
  shows "\<exists>res gr s'.
           snd (submitPlayerChoice db new_id now data) = Inr res
         \<and> \<not> res_isCorrect res
         \<and> res_gameResult res = Some gr \<and> result_is_completed gr
         \<and> getGameSession (fst (submitPlayerChoice db new_id now data)) (data_session_id data) = Some s'
         \<and> is_completed s'
         \<and> submitPlayerChoice (run (fst (submitPlayerChoice db new_id now data)) ops) new_id' now' later
             = (run (fst (submitPlayerChoice db new_id now data)) ops, Inl GameSessionAlreadyCompleted)"
proof -
  let ?db' = "fst (submitPlayerChoice db new_id now data)"
  have ends: "roundCompletes s (data_player_choice data = choice_ai)"
    using assms(2,5) by (simp add: roundCompletes_def)
  from submit_result[OF assms(1,3,4), of new_id now] obtain res where
    res: "snd (submitPlayerChoice db new_id now data) = Inr res"
      "res_isCorrect res = (data_player_choice data = choice_ai)"
      "case res_gameResult res of
         None \<Rightarrow> \<not> roundCompletes s (data_player_choice data = choice_ai)
       | Some gr \<Rightarrow> roundCompletes s (data_player_choice data = choice_ai) \<and> result_is_completed gr
            \<and> result_session_id gr = data_session_id data
            \<and> result_total_score gr = total_score s + roundPoints s p data
            \<and> result_rounds_completed gr = rounds_completed s + 1
            \<and> result_current_streak gr = current_streak s"
    by blast
  from res(3) ends obtain gr where gr: "res_gameResult res = Some gr" "result_is_completed gr"
    by (cases "res_gameResult res") simp_all
  from submit_session[OF assms(1,3,4), of new_id now "data_session_id data"] ends
  obtain s' where s': "getGameSession ?db' (data_session_id data) = Some s'" "is_completed s'"
    by simp
  then have "completed_in ?db' (data_session_id later)"
    using assms(7) by (simp add: completed_in_def)
  with assms(6,7) have "completed_in (run ?db' ops) (data_session_id later)"
    by (simp add: completed_run)
  then have "submitPlayerChoice (run ?db' ops) new_id' now' later
      = (run ?db' ops, Inl GameSessionAlreadyCompleted)"
    by (rule submit_completed_in)
  with res(1,2) gr s' assms(5) show ?thesis by simp
qed

theorem streak_miss_completes_session_witness:
  "getGameSession example_db (data_session_id (example_choice ''s1'' choice_real 4000))
     = Some example_streak_session
   \<and> game_mode example_streak_session = streak
   \<and> \<not> is_completed example_streak_session
   \<and> getImagePair example_db (data_pair_id (example_choice ''s1'' choice_real 4000)) = Some example_pair
   \<and> data_player_choice (example_choice ''s1'' choice_real 4000) \<noteq> choice_ai
   \<and> list_all (starts_other (data_session_id (example_choice ''s1'' choice_real 4000)))
        [Start ''s3'' 7 ''2024-01-01'' \<lparr>data_game_mode = streak, data_player_id = None\<rparr>,
         End 8 ''s1'' None]
   \<and> submitPlayerChoice
        (run (fst (submitPlayerChoice example_db ''round1'' 5 (example_choice ''s1'' choice_real 4000)))
           [Start ''s3'' 7 ''2024-01-01'' \<lparr>data_game_mode = streak, data_player_id = None\<rparr>,
            End 8 ''s1'' None])
        ''round2'' 9 (example_choice ''s1'' choice_ai 100)
      = (run (fst (submitPlayerChoice example_db ''round1'' 5 (example_choice ''s1'' choice_real 4000)))
           [Start ''s3'' 7 ''2024-01-01'' \<lparr>data_game_mode = streak, data_player_id = None\<rparr>,
            End 8 ''s1'' None],
         Inl GameSessionAlreadyCompleted)"
proof -
  let ?data = "example_choice ''s1'' choice_real 4000"
  let ?ops = "[Start ''s3'' 7 ''2024-01-01'' \<lparr>data_game_mode = streak, data_player_id = None\<rparr>,
               End 8 ''s1'' None]"
  have h1: "getGameSession example_db (data_session_id ?data) = Some example_streak_session"
    by (simp add: example_choice_def example_db_facts)
  have h2: "game_mode example_streak_session = streak"
    and h3: "\<not> is_completed example_streak_session"
    by (simp_all add: example_streak_session_def)
  have h4: "getImagePair example_db (data_pair_id ?data) = Some example_pair"
    by (simp add: example_choice_def example_db_facts)
  have h5: "data_player_choice ?data \<noteq> choice_ai"
    by (simp add: example_choice_def)
  have h6: "\<forall>op \<in> set ?ops. starts_other (data_session_id ?data) op"
    by (simp add: example_choice_def)
  have h7: "data_session_id (example_choice ''s1'' choice_ai 100) = data_session_id ?data"
    by (simp add: example_choice_def)
  from streak_miss_completes_session[OF h1 h2 h3 h4 h5 h6 h7, of "''round1''" 5 "''round2''" 9]
  have "submitPlayerChoice (run (fst (submitPlayerChoice example_db ''round1'' 5 ?data)) ?ops)
          ''round2'' 9 (example_choice ''s1'' choice_ai 100)
        = (run (fst (submitPlayerChoice example_db ''round1'' 5 ?data)) ?ops,
           Inl GameSessionAlreadyCompleted)"
    by blast
  moreover have "list_all (starts_other (data_session_id ?data)) ?ops"
    by (simp add: example_choice_def)
  ultimately show ?thesis using h1 h2 h3 h4 h5 by blast
qed

text \<open>
  C4. In a daily-mode session as \<open>startGameSession\<close> creates it (in progress, no
  round completed), the first and the second submitted round leave the session in
  progress and return no game result; the third, whatever the three choices are,
  completes it and returns a game result of three rounds; \<open>current_streak\<close> stays
  what it was throughout; and a fourth \<open>submitPlayerChoice\<close> on the session, after any
  further operations of the engine, fails with \<open>GameSessionAlreadyCompleted\<close>.
\<close>

theorem daily_third_round_completes_session:
  assumes "getGameSession db sessionId = Some s"
    and "game_mode s = daily"
    and "\<not> is_completed s"
    and "rounds_completed s = 0"
    and "data_session_id d1 = sessionId" "data_session_id d2 = sessionId"
        "data_session_id d3 = sessionId" "data_session_id d4 = sessionId"
    and "getImagePair db (data_pair_id d1) \<noteq> None" "getImagePair db (data_pair_id d2) \<noteq> None"
        "getImagePair db (data_pair_id d3) \<noteq> None"
    and "\<forall>op \<in> set ops. starts_other sessionId op"
  shows "\<exists>db1 db2 db3 r1 r2 r3 gr s1 s2 s3.
           submitPlayerChoice db i1 t1 d1 = (db1, Inr r1) \<and> res_gameResult r1 = None
         \<and> getGameSession db1 sessionId = Some s1 \<and> \<not> is_completed s1
         \<and> current_streak s1 = current_streak s
         \<and> submitPlayerChoice db1 i2 t2 d2 = (db2, Inr r2) \<and> res_gameResult r2 = None
         \<and> getGameSession db2 sessionId = Some s2 \<and> \<not> is_completed s2
         \<and> current_streak s2 = current_streak s
         \<and> submitPlayerChoice db2 i3 t3 d3 = (db3, Inr r3) \<and> res_gameResult r3 = Some gr
         \<and> result_is_completed gr \<and> result_rounds_completed gr = 3
         \<and> getGameSession db3 sessionId = Some s3 \<and> is_completed s3
         \<and> current_streak s3 = current_streak s
         \<and> submitPlayerChoice (run db3 ops) i4 t4 d4 = (run db3 ops, Inl GameSessionAlreadyCompleted)"
proof -
  from daily_round[of db d1 s i1 t1] assms(1-5,9)
  obtain db1 r1 s1 where 1: "submitPlayerChoice db i1 t1 d1 = (db1, Inr r1)"
    "getGameSession db1 sessionId = Some s1" "game_mode s1 = daily" "rounds_completed s1 = 1"
    "current_streak s1 = current_streak s" "\<not> is_completed s1" "res_gameResult r1 = None"
    "\<And>q. getImagePair db1 q = None \<longleftrightarrow> getImagePair db q = None"
    by auto
  from 1(8) assms(10,11) have p1: "getImagePair db1 (data_pair_id d2) \<noteq> None"
    "getImagePair db1 (data_pair_id d3) \<noteq> None" by simp_all
  from daily_round[of db1 d2 s1 i2 t2] 1(2,3,4,6) assms(6) p1(1)
  obtain db2 r2 s2 where 2: "submitPlayerChoice db1 i2 t2 d2 = (db2, Inr r2)"
    "getGameSession db2 sessionId = Some s2" "game_mode s2 = daily" "rounds_completed s2 = 2"
    "current_streak s2 = current_streak s1" "\<not> is_completed s2" "res_gameResult r2 = None"
    "\<And>q. getImagePair db2 q = None \<longleftrightarrow> getImagePair db1 q = None"
    by auto
  from 2(8) p1(2) have p2: "getImagePair db2 (data_pair_id d3) \<noteq> None" by simp
  from daily_round[of db2 d3 s2 i3 t3] 2(2,3,4,6) assms(7) p2
  obtain db3 r3 s3 gr where 3: "submitPlayerChoice db2 i3 t3 d3 = (db3, Inr r3)"
    "getGameSession db3 sessionId = Some s3" "current_streak s3 = current_streak s2"
    "is_completed s3" "res_gameResult r3 = Some gr" "result_is_completed gr"
    "result_rounds_completed gr = 3"
    by auto
  from 3(2,4) have "completed_in db3 sessionId" by (simp add: completed_in_def)
  with assms(12) have "completed_in (run db3 ops) (data_session_id d4)"
    using assms(8) by (simp add: completed_run)
  then have 4: "submitPlayerChoice (run db3 ops) i4 t4 d4 = (run db3 ops, Inl GameSessionAlreadyCompleted)"
    by (rule submit_completed_in)
  from 1(1,2,5,6,7) 2(1,2,5,6,7) 3 4 show ?thesis by simp
qed

theorem daily_third_round_completes_session_witness:
  "getGameSession example_db ''s2'' = Some example_daily_session
   \<and> game_mode example_daily_session = daily
   \<and> \<not> is_completed example_daily_session
   \<and> rounds_completed example_daily_session = 0
   \<and> getImagePair example_db (data_pair_id (example_choice ''s2'' choice_ai 1500)) \<noteq> None
   \<and> list_all (starts_other ''s2'') [End 9 ''s2'' None]
   \<and> snd (submitPlayerChoice
         (run (fst (submitPlayerChoice
                 (fst (submitPlayerChoice
                        (fst (submitPlayerChoice example_db ''round1'' 1
                               (example_choice ''s2'' choice_ai 1500)))
                        ''round2'' 2 (example_choice ''s2'' choice_real 2500)))
                 ''round3'' 3 (example_choice ''s2'' choice_ai 3500)))
            [End 9 ''s2'' None])
         ''round4'' 10 (example_choice ''s2'' choice_ai 4500))
      = Inl GameSessionAlreadyCompleted"
proof -
  let ?d1 = "example_choice ''s2'' choice_ai 1500"
  let ?d2 = "example_choice ''s2'' choice_real 2500"
  let ?d3 = "example_choice ''s2'' choice_ai 3500"
  let ?d4 = "example_choice ''s2'' choice_ai 4500"
  have h1: "getGameSession example_db ''s2'' = Some example_daily_session"
    by (simp add: example_db_facts)
  have h2: "game_mode example_daily_session = daily"
    and h3: "\<not> is_completed example_daily_session"
    and h4: "rounds_completed example_daily_session = 0"
    by (simp_all add: example_daily_session_def)
  have ids: "data_session_id ?d1 = ''s2''" "data_session_id ?d2 = ''s2''"
    "data_session_id ?d3 = ''s2''" "data_session_id ?d4 = ''s2''"
    by (simp_all add: example_choice_def)
  have ps: "getImagePair example_db (data_pair_id ?d1) \<noteq> None"
    "getImagePair example_db (data_pair_id ?d2) \<noteq> None"
    "getImagePair example_db (data_pair_id ?d3) \<noteq> None"
    by (simp_all add: example_choice_def example_db_facts)
  have ops: "\<forall>op \<in> set [End 9 ''s2'' None]. starts_other ''s2'' op" by simp
  from daily_third_round_completes_session[OF h1 h2 h3 h4 ids ps ops,
      of "''round1''" 1 "''round2''" 2 "''round3''" 3 "''round4''" 10]
  obtain db1 db2 db3 r1 r2 r3 where
    "submitPlayerChoice example_db ''round1'' 1 ?d1 = (db1, Inr r1)"
    "submitPlayerChoice db1 ''round2'' 2 ?d2 = (db2, Inr r2)"
    "submitPlayerChoice db2 ''round3'' 3 ?d3 = (db3, Inr r3)"
    "submitPlayerChoice (run db3 [End 9 ''s2'' None]) ''round4'' 10 ?d4
       = (run db3 [End 9 ''s2'' None], Inl GameSessionAlreadyCompleted)"
    by blast
  then have "snd (submitPlayerChoice
         (run (fst (submitPlayerChoice
                 (fst (submitPlayerChoice
                        (fst (submitPlayerChoice example_db ''round1'' 1 ?d1))
                        ''round2'' 2 ?d2))
                 ''round3'' 3 ?d3))
            [End 9 ''s2'' None])
         ''round4'' 10 ?d4) = Inl GameSessionAlreadyCompleted"
    by simp
  moreover have "list_all (starts_other ''s2'') [End 9 ''s2'' None]" by simp
  ultimately show ?thesis using h1 h2 h3 h4 ps(1) by blast
qed

text \<open>
  C5, as amended. \<open>endGameSession\<close> on a session that is already completed does not
  fail: it returns a game result, the session stays completed, its \<open>end_time\<close> is
  stamped again with the time of the call, and the overrides passed are applied; without
  overrides the session is otherwise unchanged. As stated (the call fails with
  AlreadyCompleted and leaves the record unchanged) the property fails: ending a session
  at time 100 and again at time 200 succeeds twice and leaves \<open>end_time = 200\<close>.
\<close>

theorem end_completed_session_restamps:
  assumes "getGameSession db sessionId = Some s"
    and "is_completed s"
  shows "\<exists>gr s'. snd (endGameSession db now sessionId updates) = Inr gr
          \<and> result_is_completed gr
          \<and> getGameSession (fst (endGameSession db now sessionId updates)) sessionId = Some s'
          \<and> s' = applyGameSessionUpdates s (finalUpdates now updates)
          \<and> is_completed s' \<and> end_time s' = Some now
          \<and> (updates = None \<longrightarrow> s' = s\<lparr>end_time := Some now\<rparr>)"
proof -
  from endGameSession_snd[OF assms(1), of now updates] obtain gr where
    "snd (endGameSession db now sessionId updates) = Inr gr" "result_is_completed gr"
    by blast
  moreover have "getGameSession (fst (endGameSession db now sessionId updates)) sessionId
      = Some (applyGameSessionUpdates s (finalUpdates now updates))"
    using assms(1) by (simp add: end_session)
  moreover have "end_time (applyGameSessionUpdates s (finalUpdates now updates)) = Some now"
    by (simp add: applyGameSessionUpdates_def finalUpdates_def split: option.splits)
  moreover have "applyGameSessionUpdates s (finalUpdates now None) = s\<lparr>end_time := Some now\<rparr>"
    using assms(2) by (simp add: applyGameSessionUpdates_def finalUpdates_def)
  ultimately show ?thesis using is_completed_final[of s now updates] by auto
qed

theorem end_completed_session_restamps_witness:
  "getGameSession (fst (endGameSession example_db 100 ''s1'' None)) ''s1''
     = Some (example_streak_session\<lparr>is_completed := True, end_time := Some 100\<rparr>)
   \<and> is_completed (example_streak_session\<lparr>is_completed := True, end_time := Some 100\<rparr>)
   \<and> getGameSession
        (fst (endGameSession (fst (endGameSession example_db 100 ''s1'' None)) 200 ''s1'' None)) ''s1''
     = Some (example_streak_session\<lparr>is_completed := True, end_time := Some 200\<rparr>)"
proof -
  let ?db = "fst (endGameSession example_db 100 ''s1'' None)"
  let ?s = "example_streak_session\<lparr>is_completed := True, end_time := Some 100\<rparr>"
  have h1: "getGameSession ?db ''s1'' = Some ?s"
    by (simp add: end_session example_db_facts applyGameSessionUpdates_def finalUpdates_def)
  have h2: "is_completed ?s" by simp
  from end_completed_session_restamps[OF h1 h2, of 200 None]
  have "getGameSession (fst (endGameSession ?db 200 ''s1'' None)) ''s1''
          = Some (?s\<lparr>end_time := Some 200\<rparr>)"
    by auto
  with h1 h2 show ?thesis by simp
qed

theorem end_twice_counterexample:
  "getGameSession (fst (endGameSession example_db 100 ''s1'' None)) ''s1''
     = Some (example_streak_session\<lparr>is_completed := True, end_time := Some 100\<rparr>)
   \<and> endGameSession (fst (endGameSession example_db 100 ''s1'' None)) 200 ''s1'' None
     = (example_db\<lparr>gameSessions :=
          [(''s1'', example_streak_session\<lparr>is_completed := True, end_time := Some 200\<rparr>),
           (''s2'', example_daily_session)]\<rparr>,
        Inr \<lparr>result_session_id = ''s1'', result_total_score = 0, result_rounds_completed = 0,
             result_current_streak = 0, result_is_completed = True,
             result_final_stats = \<lparr>correct_answers = 0, total_rounds = 0,
               accuracy_percentage = 0, stats_average_response_time = 0\<rparr>\<rparr>)"
  by (simp add: endGameSession_def finalUpdates_def updateGameSession_def getGameSession_def
      applyGameSessionUpdates_def getGameRoundsBySession_def Array_sort_def Map_values_def
      Map_get_def mul64_def div64_def example_db_def example_streak_session_def
      example_daily_session_def Let_def)

section \<open>One daily session per player and day\<close>

text \<open>
  C6. The guard of \<open>startGameSession\<close> is meant to refuse a daily start for a player
  whose daily session of today is completed. It reads the sessions with
  \<^verbatim>\<open>Object.values\<close> on the \<^verbatim>\<open>Map\<close> that holds them, which yields no session,
  so \<open>getTodaysDailySession\<close> finds none and the guard never fires. In the store
  where alice has started and ended the daily session \<open>s1\<close> of 2024-01-01, the search
  of the guard, run over the sessions of the store, finds a completed session; the
  lookup as written finds none; a second daily start of alice on that day is accepted
  and creates \<open>s2\<close>, and ending it leaves alice with two completed daily sessions for
  the date.
\<close>

theorem daily_start_after_completion_is_accepted:
  "completedDailySessions completed_daily_db ''alice'' ''2024-01-01'' = [''s1'']
   \<and> map_option is_completed
        (findTodaysDailySession (Map_values (gameSessions completed_daily_db))
           ''2024-01-01'' ''alice'') = Some True
   \<and> getTodaysDailySession completed_daily_db ''2024-01-01'' ''alice'' = None
   \<and> snd (startGameSession completed_daily_db ''s2'' 3 ''2024-01-01'' alice_daily)
       = Inr \<lparr>session_id = ''s2'', player_id = Some ''alice'', game_mode = daily,
               start_time = 3, end_time = None, total_score = 0, rounds_completed = 0,
               current_streak = 0, is_completed = False,
               daily_challenge_date = Some ''2024-01-01''\<rparr>
   \<and> completedDailySessions
        (run completed_daily_db
           [Start ''s2'' 3 ''2024-01-01'' alice_daily, End 4 ''s2'' None])
        ''alice'' ''2024-01-01'' = [''s1'', ''s2'']"
  by (simp add: completed_daily_db_def run_Cons run_Nil startGameSession_def
      start_not_rejected alice_daily_def createGameSession_def endGameSession_fst
      updateGameSession_def finalUpdates_def applyGameSessionUpdates_def Map_get_def Let_def
      empty_db_def completedDailySessions_def Map_values_def findTodaysDailySession_def)

text \<open>
  The guard looks at the start only: two daily sessions of one player that are started
  on one day before either is ended are both completed by ending them, whatever the
  lookup returns.
\<close>

lemma daily_sessions_started_before_a_completion:
  "completedDailySessions
     (run empty_db
        [Start ''s1'' 1 ''2024-01-01'' alice_daily,
         Start ''s2'' 2 ''2024-01-01'' alice_daily,
         End 3 ''s1'' None,
         End 4 ''s2'' None])
     ''alice'' ''2024-01-01'' = [''s1'', ''s2'']"
  by (simp add: run_Cons run_Nil startGameSession_def start_not_rejected alice_daily_def
      createGameSession_def endGameSession_fst updateGameSession_def finalUpdates_def
      applyGameSessionUpdates_def Map_get_def Let_def empty_db_def
      completedDailySessions_def Map_values_def)

section \<open>Pair statistics\<close>




section \<open>The pair selector\<close>

text \<open>
  C8. For every store and every criteria (category, difficulty, excluded pair ids,
  active-only), with \<open>Math.random()\<close> in \<open>[0, 1)\<close>: \<open>selectPairForGame\<close> returns
  no pair exactly when no pair of the store passes the filter of the criteria (it makes
  no second attempt with relaxed criteria), and a pair it returns is a pair of the store
  that passes the filter; in particular its id is never in the exclusion list.
\<close>

theorem selector_respects_criteria:
  assumes "0 \<le> random" and "random < 1"
  shows "(selectPairForGame db random criteria = None
            \<longleftrightarrow> \<not> (\<exists>p \<in> set (Map_values (imagePairs db)). matchesCriteria criteria p))
       \<and> (\<forall>p. selectPairForGame db random criteria = Some p \<longrightarrow>
              p \<in> set (Map_values (imagePairs db)) \<and> matchesCriteria criteria p
            \<and> (\<forall>ids. excludePairIds criteria = Some ids \<longrightarrow> pair_id p \<notin> set ids))"
proof (intro conjI allI impI)
  have "availablePairs db criteria = [] \<longleftrightarrow> set (availablePairs db criteria) = {}" by simp
  also have "\<dots> \<longleftrightarrow> \<not> (\<exists>p \<in> set (Map_values (imagePairs db)). matchesCriteria criteria p)"
    unfolding set_availablePairs by blast
  finally show "selectPairForGame db random criteria = None
            \<longleftrightarrow> \<not> (\<exists>p \<in> set (Map_values (imagePairs db)). matchesCriteria criteria p)"
    using selectPairForGame_None[OF assms, of db criteria] by simp
next
  fix p assume "selectPairForGame db random criteria = Some p"
  from selectPairForGame_Some[OF this]
  have m: "p \<in> set (Map_values (imagePairs db)) \<and> matchesCriteria criteria p"
    unfolding set_availablePairs by simp
  then show "p \<in> set (Map_values (imagePairs db))" "matchesCriteria criteria p" by simp_all
  fix ids assume "excludePairIds criteria = Some ids"
  with m show "pair_id p \<notin> set ids" by (simp add: matchesCriteria_def)
qed

theorem selector_respects_criteria_witness:
  "(0::rat) \<le> 1 / 2 \<and> (1 / 2 :: rat) < 1
   \<and> matchesCriteria \<lparr>criteria_category = None, criteria_difficulty = None,
                        excludePairIds = Some [''p1''], activeOnly = None\<rparr> easy_pair
   \<and> \<not> matchesCriteria \<lparr>criteria_category = None, criteria_difficulty = None,
                          excludePairIds = Some [''p1''], activeOnly = None\<rparr> example_pair
   \<and> selectPairForGame selection_db (1 / 2)
        \<lparr>criteria_category = None, criteria_difficulty = None,
         excludePairIds = Some [''p1''], activeOnly = None\<rparr> = Some easy_pair"
proof -
  let ?c = "\<lparr>criteria_category = None, criteria_difficulty = None,
             excludePairIds = Some [''p1''], activeOnly = None\<rparr>"
  have h1: "(0::rat) \<le> 1 / 2" and h2: "(1 / 2 :: rat) < 1" by simp_all
  have m2: "matchesCriteria ?c easy_pair"
    by (simp add: matchesCriteria_def easy_pair_def truthy_string_def truthy_number_def)
  have m1: "\<not> matchesCriteria ?c example_pair"
    by (simp add: matchesCriteria_def example_pair_def)
  note t = selector_respects_criteria[OF h1 h2, of selection_db ?c]
  from t m2 have "selectPairForGame selection_db (1 / 2) ?c \<noteq> None"
    by (simp add: selection_db_pairs)
  then obtain p where p: "selectPairForGame selection_db (1 / 2) ?c = Some p" by blast
  with t have "p \<in> set (Map_values (imagePairs selection_db))" "matchesCriteria ?c p"
    by blast+
  with m1 have "p = easy_pair" by (auto simp: selection_db_pairs)
  with p h1 h2 m1 m2 show ?thesis by simp
qed

text \<open>
  C9. In streak mode the target difficulty that \<open>getNextPairForGame\<close> computes is a
  function of the session's current streak alone: below 3 it is 1, below 7 it is 2,
  below 12 it is 3, below 20 it is 4, otherwise 5. The first selection is made with that
  difficulty: a pair it finds has it, is active and was not played in the session, and is
  the pair that \<open>getNextPairForGame\<close> returns.
\<close>

theorem next_pair_streak_difficulty:
  assumes "game_mode session = streak"
  shows "targetDifficulty db session playedRounds
           = Some (if current_streak session < 3 then 1
                   else if current_streak session < 7 then 2
                   else if current_streak session < 12 then 3
                   else if current_streak session < 20 then 4
                   else 5)
       \<and> (selectPairForGame db random
              \<lparr>criteria_category = None,
               criteria_difficulty = targetDifficulty db session playedRounds,
               excludePairIds = Some (map round_pair_id playedRounds),
               activeOnly = Some True\<rparr> = Some p
            \<longrightarrow> difficulty_level p
                  = (if current_streak session < 3 then 1
                     else if current_streak session < 7 then 2
                     else if current_streak session < 12 then 3
                     else if current_streak session < 20 then 4
                     else 5)
              \<and> is_active p \<and> pair_id p \<notin> round_pair_id ` set playedRounds)
       \<and> (getGameSession db sessionId = Some session \<and> \<not> is_completed session
            \<and> selectPairForGame db random
                 \<lparr>criteria_category = None,
                  criteria_difficulty =
                    targetDifficulty db session (getGameRoundsBySession db sessionId),
                  excludePairIds = Some (map round_pair_id (getGameRoundsBySession db sessionId)),
                  activeOnly = Some True\<rparr> = Some p
            \<longrightarrow> getNextPairForGame db random sessionId
                  = (case getImagePairWithImages db (pair_id p) of
                       None \<Rightarrow> Inl FailedToLoadImagePairData
                     | Some pairWithImages \<Rightarrow>
                         Inr \<lparr>next_session_id = sessionId, next_pair = pairWithImages,
                              next_round_number = length (getGameRoundsBySession db sessionId) + 1,
                              next_current_streak = current_streak session,
                              next_total_score = total_score session\<rparr>))"
proof (intro conjI impI)
  let ?D = "if current_streak session < 3 then 1
            else if current_streak session < 7 then 2
            else if current_streak session < 12 then 3
            else if current_streak session < 20 then (4::nat)
            else 5"
  show target: "targetDifficulty db session playedRounds = Some ?D" for playedRounds
    using assms by (simp add: targetDifficulty_def Let_def)
  have pos: "?D \<noteq> 0" by simp
  {
    assume "selectPairForGame db random
              \<lparr>criteria_category = None,
               criteria_difficulty = targetDifficulty db session playedRounds,
               excludePairIds = Some (map round_pair_id playedRounds),
               activeOnly = Some True\<rparr> = Some p"
    from selectPairForGame_Some[OF this]
    have "matchesCriteria \<lparr>criteria_category = None, criteria_difficulty = Some ?D,
               excludePairIds = Some (map round_pair_id playedRounds),
               activeOnly = Some True\<rparr> p"
      unfolding set_availablePairs target by simp
    then have "difficulty_level p = ?D \<and> is_active p \<and> pair_id p \<notin> round_pair_id ` set playedRounds"
      using pos unfolding matchesCriteria_def truthy_number_def by simp
  }
  then show "selectPairForGame db random
              \<lparr>criteria_category = None,
               criteria_difficulty = targetDifficulty db session playedRounds,
               excludePairIds = Some (map round_pair_id playedRounds),
               activeOnly = Some True\<rparr> = Some p
     \<Longrightarrow> difficulty_level p = ?D"
    and "selectPairForGame db random
              \<lparr>criteria_category = None,
               criteria_difficulty = targetDifficulty db session playedRounds,
               excludePairIds = Some (map round_pair_id playedRounds),
               activeOnly = Some True\<rparr> = Some p
     \<Longrightarrow> is_active p"
    and "selectPairForGame db random
              \<lparr>criteria_category = None,
               criteria_difficulty = targetDifficulty db session playedRounds,
               excludePairIds = Some (map round_pair_id playedRounds),
               activeOnly = Some True\<rparr> = Some p
     \<Longrightarrow> pair_id p \<notin> round_pair_id ` set playedRounds"
    by simp_all
next
  assume a: "getGameSession db sessionId = Some session \<and> \<not> is_completed session
            \<and> selectPairForGame db random
                 \<lparr>criteria_category = None,
                  criteria_difficulty =
                    targetDifficulty db session (getGameRoundsBySession db sessionId),
                  excludePairIds = Some (map round_pair_id (getGameRoundsBySession db sessionId)),
                  activeOnly = Some True\<rparr> = Some p"
  then show "getNextPairForGame db random sessionId
                  = (case getImagePairWithImages db (pair_id p) of
                       None \<Rightarrow> Inl FailedToLoadImagePairData
                     | Some pairWithImages \<Rightarrow>
                         Inr \<lparr>next_session_id = sessionId, next_pair = pairWithImages,
                              next_round_number = length (getGameRoundsBySession db sessionId) + 1,
                              next_current_streak = current_streak session,
                              next_total_score = total_score session\<rparr>)"
    by (simp add: getNextPairForGame_def Let_def)
qed

theorem next_pair_streak_difficulty_witness:
  "game_mode example_streak_session = streak
   \<and> targetDifficulty selection_db example_streak_session [] = Some 1
   \<and> selectPairForGame selection_db (1 / 2)
        \<lparr>criteria_category = None, criteria_difficulty = Some 1,
         excludePairIds = Some [], activeOnly = Some True\<rparr> = Some easy_pair
   \<and> difficulty_level easy_pair = 1
   \<and> getNextPairForGame selection_db (1 / 2) ''s1''
       = Inr \<lparr>next_session_id = ''s1'',
              next_pair = \<lparr>with_pair = easy_pair,
                           ai_image = summary_of (example_image ''a2'' True),
                           real_image = summary_of (example_image ''r2'' False)\<rparr>,
              next_round_number = 1, next_current_streak = 0, next_total_score = 0\<rparr>"
proof -
  let ?c = "\<lparr>criteria_category = None, criteria_difficulty = Some 1,
             excludePairIds = Some [], activeOnly = Some True\<rparr>"
  have h: "game_mode example_streak_session = streak"
    and s0: "current_streak example_streak_session = 0" "total_score example_streak_session = 0"
      "\<not> is_completed example_streak_session"
    by (simp_all add: example_streak_session_def)
  note t = next_pair_streak_difficulty[OF h, of selection_db _ "1 / 2" easy_pair "''s1''"]
  have target: "targetDifficulty selection_db example_streak_session playedRounds = Some 1"
    for playedRounds
    using t[of playedRounds] s0 by simp
  have "availablePairs selection_db ?c = [easy_pair]"
    by (simp add: availablePairs_def db_getAllImagePairs_def Let_def selection_db_pairs
        truthy_string_def truthy_number_def example_pair_def easy_pair_def)
  then have sel: "selectPairForGame selection_db (1 / 2) ?c = Some easy_pair"
    by (rule selectPairForGame_single) simp_all
  have rounds: "getGameRoundsBySession selection_db ''s1'' = []"
    by (simp add: getGameRoundsBySession_def selection_db_def Map_values_def Array_sort_def)
  have sess: "getGameSession selection_db ''s1'' = Some example_streak_session"
    by (simp add: getGameSession_def selection_db_def Map_get_def)
  have imgs: "getImagePairWithImages selection_db (pair_id easy_pair)
      = Some \<lparr>with_pair = easy_pair, ai_image = summary_of (example_image ''a2'' True),
               real_image = summary_of (example_image ''r2'' False)\<rparr>"
    by (simp add: getImagePairWithImages_def getImagePair_def getImageById_def getImage_def
        selection_db_def Map_get_def easy_pair_def)
  from t[of "[]"] sess s0(3) sel rounds target
  have "getNextPairForGame selection_db (1 / 2) ''s1''
      = (case getImagePairWithImages selection_db (pair_id easy_pair) of
           None \<Rightarrow> Inl FailedToLoadImagePairData
         | Some pairWithImages \<Rightarrow>
             Inr \<lparr>next_session_id = ''s1'', next_pair = pairWithImages,
                  next_round_number = length (getGameRoundsBySession selection_db ''s1'') + 1,
                  next_current_streak = current_streak example_streak_session,
                  next_total_score = total_score example_streak_session\<rparr>)"
    by simp
  with imgs rounds s0 have "getNextPairForGame selection_db (1 / 2) ''s1''
       = Inr \<lparr>next_session_id = ''s1'',
              next_pair = \<lparr>with_pair = easy_pair,
                           ai_image = summary_of (example_image ''a2'' True),
                           real_image = summary_of (example_image ''r2'' False)\<rparr>,
              next_round_number = 1, next_current_streak = 0, next_total_score = 0\<rparr>"
    by simp
  moreover have "difficulty_level easy_pair = 1" by (simp add: easy_pair_def)
  ultimately show ?thesis using h target[of "[]"] sel by simp
qed

section \<open>The leaderboard\<close>

text \<open>
  C10. \<open>getLeaderboard\<close> reads the sessions with \<^verbatim>\<open>Object.values\<close> on the
  \<^verbatim>\<open>Map\<close> that holds them, which yields no session, so it ranks nobody: on the store
  that holds the completed sessions of the players A, B, C and D, with total scores 300,
  500, 500 and 100 in that order, the leaderboard with limit 3 has no row, and so it has
  none on any store, for any mode and limit.
\<close>

theorem getLeaderboard_returns_no_rows:
  "map (\<lambda>s. (player_id s, total_score s, is_completed s))
     (Map_values (gameSessions leaderboard_db))
     = [(Some ''A'', 300, True), (Some ''B'', 500, True),
        (Some ''C'', 500, True), (Some ''D'', 100, True)]
   \<and> getLeaderboard leaderboard_db None 3 = []
   \<and> getLeaderboard db gameMode limit = []"
  by (simp add: getLeaderboard_def Object_values_def rankSessions_def Let_def
      Map_values_def Array_sort_def Array_slice0_def leaderboard_db_def finished_session_def
      split: option.splits)

text \<open>
  The ranking itself, on the array of those four sessions, yields three rows: B and C,
  tied at 500 in the order of their first sessions, then A with 300; the player left
  out is D, who has the lowest score.
\<close>

lemma ranking_of_the_four_sessions:
  "map row_player_id (rankSessions (Map_values (gameSessions leaderboard_db)) None 3)
     = [''B'', ''C'', ''A'']"
proof -
  have "Map_values (gameSessions leaderboard_db)
      = [finished_session ''sA'' ''A'' 300, finished_session ''sB'' ''B'' 500,
         finished_session ''sC'' ''C'' 500, finished_session ''sD'' ''D'' 100]"
    by (simp add: leaderboard_db_def Map_values_def)
  then show ?thesis by (simp add: rank_example)
qed

end
